theory Spec2Isabelle
  imports Main "HOL-Library.Word"
begin

section \<open>The compound BeforeSuite node of ginkgo\<close>

text \<open>
  A shallow embedding of \<^verbatim>\<open>internal/leafnodes/compound_before_suite_node.go\<close>.
  The node lives in one process; everything it does to the outside (running a phase
  runner, calling the user's functions, HTTP requests, sleeping) is written to a trace
  of events, and everything the outside answers (what the user's functions return, what
  the runner reports, what the HTTP server sends, what the JSON library decodes) is read
  from an environment whose answers may depend on the trace so far.
\<close>

subsection \<open>Types of package \<^verbatim>\<open>types\<close>\<close>

text \<open>
  Modelled from the spec: \<^verbatim>\<open>types.SpecState\<close> is declared outside the given source
  file. The source names \<^verbatim>\<open>SpecStatePassed\<close> and \<^verbatim>\<open>SpecStateFailed\<close>; the spec's
  Phase Runner yields a pass/fail/timeout outcome and captures panics. The zero value is
  \<open>SpecStateInvalid\<close>.
\<close>

datatype SpecState =
    SpecStateInvalid
  | SpecStatePending
  | SpecStateSkipped
  | SpecStatePassed
  | SpecStateFailed
  | SpecStatePanicked
  | SpecStateTimedOut

text \<open>
  Modelled from the spec: \<^verbatim>\<open>types.SpecComponentType\<close> is declared outside the given
  source file; the source names \<^verbatim>\<open>SpecComponentTypeBeforeSuite\<close> only. The zero value is
  \<open>SpecComponentTypeInvalid\<close>.
\<close>

datatype SpecComponentType =
    SpecComponentTypeInvalid
  | SpecComponentTypeBeforeSuite
  | SpecComponentTypeOther nat

text \<open>
  Modelled from the spec: \<^verbatim>\<open>types.CodeLocation\<close> is declared outside the given source
  file; a source location is a file name and a line.
\<close>

record CodeLocation =
  FileName :: string
  LineNumber :: int

definition CodeLocation_zero :: CodeLocation where
  "CodeLocation_zero = \<lparr>FileName = [], LineNumber = 0\<rparr>"

text \<open>
  Modelled from the spec: \<^verbatim>\<open>types.SpecFailure\<close> is declared outside the given source
  file; these are the five fields that the source (lines 103-109) writes.
  \<open>SpecFailure_zero\<close> is the composite literal \<^verbatim>\<open>types.SpecFailure{}\<close>.
\<close>

record SpecFailure =
  Message :: string
  Location :: CodeLocation
  ComponentType :: SpecComponentType
  ComponentIndex :: int
  ComponentCodeLocation :: CodeLocation

definition SpecFailure_zero :: SpecFailure where
  "SpecFailure_zero =
     \<lparr>Message = [], Location = CodeLocation_zero, ComponentType = SpecComponentTypeInvalid,
      ComponentIndex = 0, ComponentCodeLocation = CodeLocation_zero\<rparr>"

subsection \<open>The remote state record (lines 14-33)\<close>

text \<open>
  \<^verbatim>\<open>type RemoteStateState int\<close> with its constants numbered by \<^verbatim>\<open>iota\<close>. A decoded
  record can carry any integer, so the type is \<open>int\<close> and not an enumeration.
\<close>

type_synonym RemoteStateState = int

definition RemoteStateStateInvalid :: RemoteStateState where
  "RemoteStateStateInvalid = 0"

definition RemoteStateStatePending :: RemoteStateState where
  "RemoteStateStatePending = 1"

definition RemoteStateStatePassed :: RemoteStateState where
  "RemoteStateStatePassed = 2"

definition RemoteStateStateFailed :: RemoteStateState where
  "RemoteStateStateFailed = 3"

definition RemoteStateStateDisappeared :: RemoteStateState where
  "RemoteStateStateDisappeared = 4"

text \<open>\<^verbatim>\<open>[]byte\<close>; the nil slice and the empty slice are both \<open>[]\<close>.\<close>

type_synonym bytes = "8 word list"

record RemoteState =
  Data :: bytes
  State :: RemoteStateState

subsection \<open>Go types as \<^verbatim>\<open>reflect\<close> sees them\<close>

text \<open>
  \<^verbatim>\<open>reflect.Kind\<close> and the part of \<^verbatim>\<open>reflect.Type\<close> that \<^verbatim>\<open>wrapA\<close> and \<^verbatim>\<open>wrapB\<close>
  inspect: \<^verbatim>\<open>Kind\<close>, \<^verbatim>\<open>NumIn\<close>, \<^verbatim>\<open>In\<close>, \<^verbatim>\<open>NumOut\<close>, \<^verbatim>\<open>Out\<close> and \<^verbatim>\<open>Elem\<close>, together
  with what \<^verbatim>\<open>reflect.Value.Call\<close> and a type assertion compare when the closures
  run: the name of a defined type, the direction of a channel, the methods of an
  interface and a variadic last parameter.
\<close>

datatype basic =
    go_bool | go_int | go_int8 | go_int16 | go_int32 | go_int64
  | go_uint | go_uint8 | go_uint16 | go_uint32 | go_uint64 | go_uintptr
  | go_float32 | go_float64 | go_complex64 | go_complex128 | go_string | go_unsafe_pointer

datatype Kind =
    reflect_Invalid
  | reflect_Basic basic
  | reflect_Array
  | reflect_Chan
  | reflect_Func
  | reflect_Interface
  | reflect_Map
  | reflect_Ptr
  | reflect_Slice
  | reflect_Struct

abbreviation reflect_Uint8 :: Kind where
  "reflect_Uint8 \<equiv> reflect_Basic go_uint8"

datatype ChanDir = RecvDir | SendDir | BothDir

text \<open>
  \<open>FuncT ins v outs\<close> has the parameters \<open>ins\<close>, followed for \<open>v = Some e\<close> by the
  variadic parameter \<^verbatim>\<open>...e\<close> (whose type is \<^verbatim>\<open>[]e\<close>), and the results \<open>outs\<close>.
  \<open>InterfaceT ms\<close> is the interface with the methods named \<open>ms\<close>, so \<open>InterfaceT []\<close>
  is \<^verbatim>\<open>interface{}\<close>. \<open>NamedT n t\<close> is the defined type \<^verbatim>\<open>type n t\<close>. Two types are
  identical when the terms are equal.
\<close>

datatype go_type =
    BasicT basic
  | ArrayT nat go_type
  | ChanT ChanDir go_type
  | FuncT "go_type list" "go_type option" "go_type list"
  | InterfaceT "string list"
  | MapT go_type go_type
  | PtrT go_type
  | SliceT go_type
  | StructT "go_type list"
  | NamedT string go_type

text \<open>\<^verbatim>\<open>[]byte\<close>, and \<^verbatim>\<open>chan<- interface{}\<close>, the type of the runner's Done channel.\<close>

definition bytesT :: go_type where
  "bytesT = SliceT (BasicT go_uint8)"

definition doneT :: go_type where
  "doneT = ChanT SendDir (InterfaceT [])"

text \<open>
  A value of type \<^verbatim>\<open>interface{}\<close>: the nil interface, or a value with a dynamic type.
  What a function value does when it is called is the environment's part; a function
  value is taken not to be the nil function.
\<close>

datatype iface = NilInterface | Dyn go_type

text \<open>
  A Go panic: one raised by \<^verbatim>\<open>panic(message)\<close>, or a run-time error of the language
  or of package \<^verbatim>\<open>reflect\<close>.
\<close>

datatype panic = Panic string | RuntimeError string

definition nil_dereference :: panic where
  "nil_dereference = RuntimeError ''invalid memory address or nil pointer dereference''"

text \<open>\<^verbatim>\<open>reflect.TypeOf\<close> returns the nil \<^verbatim>\<open>Type\<close> for the nil interface.\<close>

fun TypeOf :: "iface \<Rightarrow> go_type option" where
  "TypeOf NilInterface = None"
| "TypeOf (Dyn t) = Some t"

text \<open>The underlying type of a defined type; every other type is its own.\<close>

fun underlying :: "go_type \<Rightarrow> go_type" where
  "underlying (NamedT n t) = underlying t"
| "underlying t = t"

fun Kind_of :: "go_type \<Rightarrow> Kind" where
  "Kind_of (BasicT b) = reflect_Basic b"
| "Kind_of (ArrayT n t) = reflect_Array"
| "Kind_of (ChanT d t) = reflect_Chan"
| "Kind_of (FuncT ins v outs) = reflect_Func"
| "Kind_of (InterfaceT ms) = reflect_Interface"
| "Kind_of (MapT k v) = reflect_Map"
| "Kind_of (PtrT t) = reflect_Ptr"
| "Kind_of (SliceT t) = reflect_Slice"
| "Kind_of (StructT fs) = reflect_Struct"
| "Kind_of (NamedT n t) = Kind_of t"

text \<open>The accessors panic on a type of the wrong kind and on an index out of range.\<close>

fun NumIn :: "go_type \<Rightarrow> panic + nat" where
  "NumIn (FuncT ins v outs) = Inr (length ins + (case v of None \<Rightarrow> 0 | Some e \<Rightarrow> 1))"
| "NumIn (NamedT n t) = NumIn t"
| "NumIn t = Inl (RuntimeError ''reflect: NumIn of non-func type'')"

fun NumOut :: "go_type \<Rightarrow> panic + nat" where
  "NumOut (FuncT ins v outs) = Inr (length outs)"
| "NumOut (NamedT n t) = NumOut t"
| "NumOut t = Inl (RuntimeError ''reflect: NumOut of non-func type'')"

fun In :: "go_type \<Rightarrow> nat \<Rightarrow> panic + go_type" where
  "In (FuncT ins v outs) i =
     (if i < length ins then Inr (ins ! i)
      else (case v of
              None \<Rightarrow> Inl (RuntimeError ''reflect: Func index out of bounds'')
            | Some e \<Rightarrow>
                if i = length ins then Inr (SliceT e)
                else Inl (RuntimeError ''reflect: Func index out of bounds'')))"
| "In (NamedT n t) i = In t i"
| "In t i = Inl (RuntimeError ''reflect: In of non-func type'')"

fun Out :: "go_type \<Rightarrow> nat \<Rightarrow> panic + go_type" where
  "Out (FuncT ins v outs) i =
     (if i < length outs then Inr (outs ! i)
      else Inl (RuntimeError ''reflect: Func index out of bounds''))"
| "Out (NamedT n t) i = Out t i"
| "Out t i = Inl (RuntimeError ''reflect: Out of non-func type'')"

fun Elem :: "go_type \<Rightarrow> panic + go_type" where
  "Elem (ArrayT n t) = Inr t"
| "Elem (ChanT d t) = Inr t"
| "Elem (MapT k v) = Inr v"
| "Elem (PtrT t) = Inr t"
| "Elem (SliceT t) = Inr t"
| "Elem (NamedT n t) = Elem t"
| "Elem t = Inl (RuntimeError ''reflect: Elem of invalid type'')"

subsection \<open>What \<^verbatim>\<open>reflect.Value.Call\<close> accepts\<close>

text \<open>
  \<^verbatim>\<open>Call\<close> panics unless the number of arguments fits and each argument's type is
  assignable to its parameter's type. \<open>directlyAssignable T V\<close> and
  \<open>specialChannelAssignability T V\<close> are the functions of these names in package
  \<^verbatim>\<open>reflect\<close>, for a value of type \<open>V\<close> and a target type \<open>T\<close>. The predeclared and
  the defined types have a name. The closures pass a \<^verbatim>\<open>[]byte\<close> and a
  \<^verbatim>\<open>chan<- interface{}\<close>, which have no methods, so such a value implements an
  interface type exactly when that has no methods.
\<close>

fun hasName :: "go_type \<Rightarrow> bool" where
  "hasName (BasicT b) = True"
| "hasName (NamedT n t) = True"
| "hasName t = False"

fun ChanDir_of :: "go_type \<Rightarrow> ChanDir option" where
  "ChanDir_of (ChanT d t) = Some d"
| "ChanDir_of (NamedT n t) = ChanDir_of t"
| "ChanDir_of t = None"

definition specialChannelAssignability :: "go_type \<Rightarrow> go_type \<Rightarrow> bool" where
  "specialChannelAssignability T V =
     (ChanDir_of V = Some BothDir \<and> (\<not> hasName T \<or> \<not> hasName V) \<and> Elem T = Elem V)"

definition directlyAssignable :: "go_type \<Rightarrow> go_type \<Rightarrow> bool" where
  "directlyAssignable T V =
     (if T = V then True
      else if (hasName T \<and> hasName V) \<or> Kind_of T \<noteq> Kind_of V then False
      else if Kind_of T = reflect_Chan \<and> specialChannelAssignability T V then True
      else underlying T = underlying V)"

definition implements_without_methods :: "go_type \<Rightarrow> bool" where
  "implements_without_methods T = (underlying T = InterfaceT [])"

definition assignable :: "go_type \<Rightarrow> go_type \<Rightarrow> bool" where
  "assignable V T = (directlyAssignable T V \<or> implements_without_methods T)"

text \<open>
  The checks of \<^verbatim>\<open>Call\<close> on a function of type \<open>t\<close> and arguments of the types
  \<open>args\<close>: \<open>None\<close> when the call goes ahead, the panic otherwise. For a variadic
  function the arguments beyond the fixed parameters must each be assignable to the
  element type.
\<close>

fun Call_check :: "go_type \<Rightarrow> go_type list \<Rightarrow> panic option" where
  "Call_check (FuncT ins v outs) args =
     (case v of
        None \<Rightarrow>
          if length args < length ins
          then Some (RuntimeError ''reflect: Call with too few input arguments'')
          else if length args > length ins
          then Some (RuntimeError ''reflect: Call with too many input arguments'')
          else if list_all2 assignable args ins then None
          else Some (RuntimeError ''reflect: Call using an argument of the wrong type'')
      | Some e \<Rightarrow>
          if length args < length ins
          then Some (RuntimeError ''reflect: Call with too few input arguments'')
          else if list_all2 assignable (take (length ins) args) ins \<and>
                  list_all (\<lambda>a. assignable a e) (drop (length ins) args)
          then None
          else Some (RuntimeError ''reflect: Call using an argument of the wrong type''))"
| "Call_check (NamedT n t) args = Call_check t args"
| "Call_check t args = Some (RuntimeError ''reflect: call of non-function'')"

text \<open>
  The pieces of the source's boolean expressions. Each operand can panic; \<open>andalso\<close> is
  Go's \<^verbatim>\<open>&&\<close>, which evaluates its right operand only when the left one is true.
\<close>

definition num_is :: "panic + nat \<Rightarrow> nat \<Rightarrow> panic + bool" where
  "num_is n k = (case n of Inl p \<Rightarrow> Inl p | Inr m \<Rightarrow> Inr (m = k))"

definition kind_is :: "panic + go_type \<Rightarrow> Kind \<Rightarrow> panic + bool" where
  "kind_is t k = (case t of Inl p \<Rightarrow> Inl p | Inr ty \<Rightarrow> Inr (Kind_of ty = k))"

definition elem_of :: "panic + go_type \<Rightarrow> panic + go_type" where
  "elem_of t = (case t of Inl p \<Rightarrow> Inl p | Inr ty \<Rightarrow> Elem ty)"

definition andalso :: "panic + bool \<Rightarrow> panic + bool \<Rightarrow> panic + bool" where
  "andalso a b = (case a of Inl p \<Rightarrow> Inl p | Inr x \<Rightarrow> if x then b else Inr False)"

subsection \<open>The wrapped functions (lines 159-211)\<close>

text \<open>
  The four closures that \<^verbatim>\<open>wrapA\<close> and \<^verbatim>\<open>wrapB\<close> return. Each one captures the node
  and the user's function, here the function's type; \<open>call_wrapped\<close> below is what
  running it does.
\<close>

datatype wrapped_func =
    WrapA_Done go_type
    \<comment> \<open>line 174: \<^verbatim>\<open>func(done) { node.data = bodyA(done) }\<close>\<close>
  | WrapA_NoArgs go_type
    \<comment> \<open>line 180: \<^verbatim>\<open>func() { node.data = bodyA() }\<close>\<close>
  | WrapB_Done go_type
    \<comment> \<open>line 203: \<^verbatim>\<open>func(done) { bodyB(node.data, done) }\<close>\<close>
  | WrapB_NoArgs go_type
    \<comment> \<open>line 208: \<^verbatim>\<open>func() { bodyB(node.data) }\<close>\<close>

definition takesNothing :: "go_type \<Rightarrow> panic + bool" where
  "takesNothing typeA = num_is (NumIn typeA) 0"

definition takesADoneChannel :: "go_type \<Rightarrow> panic + bool" where
  "takesADoneChannel typeA =
     andalso (num_is (NumIn typeA) 1)
       (andalso (kind_is (In typeA 0) reflect_Chan)
          (kind_is (elem_of (In typeA 0)) reflect_Interface))"

definition returnsBytes :: "go_type \<Rightarrow> panic + bool" where
  "returnsBytes typeA =
     andalso (num_is (NumOut typeA) 1)
       (andalso (kind_is (Out typeA 0) reflect_Slice)
          (kind_is (elem_of (Out typeA 0)) reflect_Uint8))"

definition wrapA :: "iface \<Rightarrow> panic + wrapped_func" where
  "wrapA bodyA =
     (case TypeOf bodyA of
        None \<Rightarrow> Inl nil_dereference
      | Some typeA \<Rightarrow>
          if Kind_of typeA \<noteq> reflect_Func
          then Inl (Panic ''CompoundBeforeSuite expects a function as its first argument'')
          else
            (case takesNothing typeA of Inl p \<Rightarrow> Inl p | Inr tn \<Rightarrow>
            (case takesADoneChannel typeA of Inl p \<Rightarrow> Inl p | Inr td \<Rightarrow>
            (case returnsBytes typeA of Inl p \<Rightarrow> Inl p | Inr rb \<Rightarrow>
               if \<not> ((tn \<or> td) \<and> rb)
               then Inl (Panic ''CompoundBeforeSuite's first argument should be a function that returns []byte and either takes no arguments or takes a Done channel.'')
               else if td then Inr (WrapA_Done typeA)
               else Inr (WrapA_NoArgs typeA)))))"

definition returnsNothing :: "go_type \<Rightarrow> panic + bool" where
  "returnsNothing typeB = num_is (NumOut typeB) 0"

definition takesBytesOnly :: "go_type \<Rightarrow> panic + bool" where
  "takesBytesOnly typeB =
     andalso (num_is (NumIn typeB) 1)
       (andalso (kind_is (In typeB 0) reflect_Slice)
          (kind_is (elem_of (In typeB 0)) reflect_Uint8))"

definition takesBytesAndDone :: "go_type \<Rightarrow> panic + bool" where
  "takesBytesAndDone typeB =
     andalso (num_is (NumIn typeB) 2)
       (andalso (kind_is (In typeB 0) reflect_Slice)
          (andalso (kind_is (elem_of (In typeB 0)) reflect_Uint8)
             (andalso (kind_is (In typeB 1) reflect_Chan)
                (kind_is (elem_of (In typeB 1)) reflect_Interface))))"

definition wrapB :: "iface \<Rightarrow> panic + wrapped_func" where
  "wrapB bodyB =
     (case TypeOf bodyB of
        None \<Rightarrow> Inl nil_dereference
      | Some typeB \<Rightarrow>
          if Kind_of typeB \<noteq> reflect_Func
          then Inl (Panic ''CompoundBeforeSuite expects a function as its second argument'')
          else
            (case returnsNothing typeB of Inl p \<Rightarrow> Inl p | Inr rn \<Rightarrow>
            (case takesBytesOnly typeB of Inl p \<Rightarrow> Inl p | Inr tb \<Rightarrow>
            (case takesBytesAndDone typeB of Inl p \<Rightarrow> Inl p | Inr tbd \<Rightarrow>
               if \<not> ((tb \<or> tbd) \<and> rn)
               then Inl (Panic ''CompoundBeforeSuite's second argument should be a function that returns nothing and either takes []byte or ([]byte, Done)'')
               else if tbd then Inr (WrapB_Done typeB)
               else Inr (WrapB_NoArgs typeB)))))"

subsection \<open>The node (lines 35-61)\<close>

text \<open>
  Modelled from the spec: the \<^verbatim>\<open>runner\<close> struct and \<^verbatim>\<open>newRunner\<close> are declared in another
  file of package \<^verbatim>\<open>leafnodes\<close>. The source reads the fields \<^verbatim>\<open>codeLocation\<close>,
  \<^verbatim>\<open>nodeType\<close> and \<^verbatim>\<open>componentIndex\<close> of a runner, and \<^verbatim>\<open>newRunner\<close> is given the wrapped
  function, the code location, the timeout, the failer, the component type and the index.
  The failer is the runner's channel to the user's assertion failures; what it collects
  is part of the runner's report in the environment.
\<close>

record runner =
  rfunc :: wrapped_func
  codeLocation :: CodeLocation
  timeout :: int
  nodeType :: SpecComponentType
  componentIndex :: int

definition newRunner ::
  "wrapped_func \<Rightarrow> CodeLocation \<Rightarrow> int \<Rightarrow> SpecComponentType \<Rightarrow> int \<Rightarrow> runner" where
  "newRunner body loc tmo ty idx =
     \<lparr>rfunc = body, codeLocation = loc, timeout = tmo, nodeType = ty, componentIndex = idx\<rparr>"

record compoundBeforeSuiteNode =
  runnerA :: runner
  runnerB :: runner
  ginkgoNode :: int
  totalGinkgoNodes :: int
  syncHost :: string
  data :: bytes
  outcome :: SpecState
  failure :: SpecFailure
  runTime :: int

text \<open>
  \<^verbatim>\<open>NewCompoundBeforeSuiteNode\<close>: \<^verbatim>\<open>wrapA\<close> is evaluated before \<^verbatim>\<open>wrapB\<close>, and a panic
  of either leaves no node. The fields that the struct literal does not set hold their
  zero values. The \<^verbatim>\<open>failer\<close> argument is only handed on to the two runners and is
  left out.
\<close>

definition NewCompoundBeforeSuiteNode ::
  "iface \<Rightarrow> iface \<Rightarrow> CodeLocation \<Rightarrow> int \<Rightarrow> int \<Rightarrow> int \<Rightarrow> string \<Rightarrow>
   panic + compoundBeforeSuiteNode" where
  "NewCompoundBeforeSuiteNode bodyA bodyB loc tmo gnode totalNodes host =
     (case wrapA bodyA of
        Inl p \<Rightarrow> Inl p
      | Inr fA \<Rightarrow>
          (case wrapB bodyB of
             Inl p \<Rightarrow> Inl p
           | Inr fB \<Rightarrow>
               Inr \<lparr>runnerA = newRunner fA loc tmo SpecComponentTypeBeforeSuite 0,
                    runnerB = newRunner fB loc tmo SpecComponentTypeBeforeSuite 0,
                    ginkgoNode = gnode, totalGinkgoNodes = totalNodes, syncHost = host,
                    data = [], outcome = SpecStateInvalid, failure = SpecFailure_zero,
                    runTime = 0\<rparr>))"

subsection \<open>The outside world\<close>

text \<open>
  What the node does to the outside, in the order in which it does it.
\<close>

datatype phase = PhaseA | PhaseB

datatype event =
    RunnerRun phase
    \<comment> \<open>\<^verbatim>\<open>node.runnerA.run()\<close> or \<^verbatim>\<open>node.runnerB.run()\<close> is entered\<close>
  | CallBodyA bool
    \<comment> \<open>\<^verbatim>\<open>bodyA\<close> is called; the flag says whether it is given the Done channel\<close>
  | CallBodyB bytes bool
    \<comment> \<open>\<^verbatim>\<open>bodyB\<close> is called with these bytes; the flag as above\<close>
  | HttpPost string string string bool
    \<comment> \<open>\<^verbatim>\<open>http.Post(url, contentType, body)\<close>, and whether it returned an error\<close>
  | HttpGet string
    \<comment> \<open>\<^verbatim>\<open>http.Get(url)\<close>\<close>
  | BodyClose
    \<comment> \<open>\<^verbatim>\<open>resp.Body.Close()\<close>\<close>
  | Sleep nat
    \<comment> \<open>\<^verbatim>\<open>time.Sleep\<close>, in milliseconds\<close>

text \<open>The HTTP requests, the calls of the user's functions, the events of the poll loop.\<close>

fun is_network :: "event \<Rightarrow> bool" where
  "is_network (HttpPost url ct body err) = True"
| "is_network (HttpGet url) = True"
| "is_network e = False"

fun is_call :: "event \<Rightarrow> bool" where
  "is_call (CallBodyA d) = True"
| "is_call (CallBodyB bs d) = True"
| "is_call e = False"

fun is_poll :: "event \<Rightarrow> bool" where
  "is_poll (HttpGet url) = True"
| "is_poll BodyClose = True"
| "is_poll (Sleep ms) = True"
| "is_poll e = False"

fun is_post :: "event \<Rightarrow> bool" where
  "is_post (HttpPost url ct body err) = True"
| "is_post e = False"

fun is_get :: "event \<Rightarrow> bool" where
  "is_get (HttpGet url) = True"
| "is_get e = False"

text \<open>
  An HTTP response as the source reads it: the status code, and what
  \<^verbatim>\<open>ioutil.ReadAll(resp.Body)\<close> yields (\<open>None\<close> when it returns an error).
\<close>

record Response =
  StatusCode :: int
  Body :: "string option"

definition http_StatusOK :: int where
  "http_StatusOK = 200"

text \<open>
  The answers of the outside, each a function of the trace at the moment of asking:
  \<^item> \<open>time_Now\<close>: the clock, in nanoseconds;
  \<^item> \<open>bodyA_returns\<close>: the bytes that the user's first function returns, \<open>None\<close> when it
    does not return (it panics, or never finishes);
  \<^item> \<open>runner_reports\<close>: the outcome and failure that \<^verbatim>\<open>runner.run()\<close> returns;
  \<^item> \<open>http_Post_err\<close>: whether \<^verbatim>\<open>http.Post\<close> returns an error;
  \<^item> \<open>http_Get\<close>: the response of \<^verbatim>\<open>http.Get\<close>, \<open>None\<close> when it returns an error;
  \<^item> \<open>json_Marshal\<close>, \<open>json_Unmarshal\<close>: package \<^verbatim>\<open>encoding/json\<close> on a
    \<^verbatim>\<open>RemoteState\<close>; decoding fills the zero record \<^verbatim>\<open>RemoteState{}\<close>, so a body
    without a state gives state 0, and it is \<open>None\<close> when decoding returns an error.
\<close>

record env =
  time_Now :: "event list \<Rightarrow> int"
  bodyA_returns :: "event list \<Rightarrow> bytes option"
  runner_reports :: "event list \<Rightarrow> SpecState \<times> SpecFailure"
  http_Post_err :: "event list \<Rightarrow> bool"
  http_Get :: "event list \<Rightarrow> string \<Rightarrow> Response option"
  json_Marshal :: "RemoteState \<Rightarrow> string"
  json_Unmarshal :: "string \<Rightarrow> RemoteState option"

text \<open>The node together with the trace of what it has done so far.\<close>

record world =
  the_node :: compoundBeforeSuiteNode
  trace :: "event list"

definition emit :: "event \<Rightarrow> world \<Rightarrow> world" where
  "emit e w = w\<lparr>trace := trace w @ [e]\<rparr>"

definition set_data :: "bytes \<Rightarrow> world \<Rightarrow> world" where
  "set_data bs w = w\<lparr>the_node := (the_node w)\<lparr>data := bs\<rparr>\<rparr>"

definition set_outcome :: "SpecState \<Rightarrow> SpecFailure \<Rightarrow> world \<Rightarrow> world" where
  "set_outcome oc fl w = w\<lparr>the_node := (the_node w)\<lparr>outcome := oc, failure := fl\<rparr>\<rparr>"

definition set_runTime :: "int \<Rightarrow> world \<Rightarrow> world" where
  "set_runTime d w = w\<lparr>the_node := (the_node w)\<lparr>runTime := d\<rparr>\<rparr>"

text \<open>
  Running one of the four closures of \<^verbatim>\<open>wrapA\<close> and \<^verbatim>\<open>wrapB\<close>. The result is the
  panic of the closure's own code, if any, and the world after it.

  The closure of \<^verbatim>\<open>wrapA\<close> (lines 174-177 and 180-183) calls \<^verbatim>\<open>bodyA\<close> through
  \<^verbatim>\<open>reflect.Value.Call\<close>, with the Done channel or with no argument. When \<^verbatim>\<open>Call\<close>
  refuses the arguments it panics and \<^verbatim>\<open>bodyA\<close> is not called. When \<^verbatim>\<open>bodyA\<close> returns,
  \<^verbatim>\<open>out[0].Interface().([]byte)\<close> panics unless the first result has the type
  \<^verbatim>\<open>[]byte\<close> itself, and only then are the bytes stored in \<^verbatim>\<open>node.data\<close>.

  The closure of \<^verbatim>\<open>wrapB\<close> (lines 203-205 and 208-210) calls \<^verbatim>\<open>bodyB\<close> through
  \<^verbatim>\<open>Call\<close> with the value that \<^verbatim>\<open>node.data\<close> has at that moment, and with the Done
  channel if it takes one. When \<^verbatim>\<open>Call\<close> refuses the arguments it panics and \<^verbatim>\<open>bodyB\<close>
  is not called.
\<close>

definition call_bodyA :: "env \<Rightarrow> go_type \<Rightarrow> bool \<Rightarrow> world \<Rightarrow> panic option \<times> world" where
  "call_bodyA env typeA done w =
     (case Call_check typeA (if done then [doneT] else []) of
        Some p \<Rightarrow> (Some p, w)
      | None \<Rightarrow>
          (case bodyA_returns env (trace w) of
             None \<Rightarrow> (None, emit (CallBodyA done) w)
           | Some out \<Rightarrow>
               (case Out typeA 0 of
                  Inl p \<Rightarrow> (Some p, emit (CallBodyA done) w)
                | Inr t \<Rightarrow>
                    if t = bytesT then (None, set_data out (emit (CallBodyA done) w))
                    else (Some (RuntimeError ''interface conversion: interface {} is not []uint8''),
                          emit (CallBodyA done) w))))"

definition call_bodyB :: "go_type \<Rightarrow> bool \<Rightarrow> world \<Rightarrow> panic option \<times> world" where
  "call_bodyB typeB done w =
     (case Call_check typeB (if done then [bytesT, doneT] else [bytesT]) of
        Some p \<Rightarrow> (Some p, w)
      | None \<Rightarrow> (None, emit (CallBodyB (data (the_node w)) done) w))"

fun call_wrapped :: "env \<Rightarrow> wrapped_func \<Rightarrow> world \<Rightarrow> panic option \<times> world" where
  "call_wrapped env (WrapA_Done typeA) w = call_bodyA env typeA True w"
| "call_wrapped env (WrapA_NoArgs typeA) w = call_bodyA env typeA False w"
| "call_wrapped env (WrapB_Done typeB) w = call_bodyB typeB True w"
| "call_wrapped env (WrapB_NoArgs typeB) w = call_bodyB typeB False w"

text \<open>
  Modelled from the spec: \<^verbatim>\<open>runner.run\<close> is defined in another file of package
  \<^verbatim>\<open>leafnodes\<close>. By the spec the Phase Runner executes a single wrapped function under a
  timeout, captures panics and failures into a structured outcome and yields an outcome
  plus failure details, \<^verbatim>\<open>run(wrappedFn, timeout) -> (state, failureDetail)\<close>. The
  outcome and the failure are the environment's answer after the call, except that a
  panic of the closure's own code makes the outcome \<open>SpecStatePanicked\<close>. The phase says
  which of the node's two runners is run.
\<close>

definition runner_of :: "phase \<Rightarrow> compoundBeforeSuiteNode \<Rightarrow> runner" where
  "runner_of ph nd = (case ph of PhaseA \<Rightarrow> runnerA nd | PhaseB \<Rightarrow> runnerB nd)"

definition runner_run ::
  "env \<Rightarrow> phase \<Rightarrow> world \<Rightarrow> (SpecState \<times> SpecFailure) \<times> world" where
  "runner_run env ph w =
     (let w1 = emit (RunnerRun ph) w in
      case call_wrapped env (rfunc (runner_of ph (the_node w1))) w1 of
        (None, w2) \<Rightarrow> (runner_reports env (trace w2), w2)
      | (Some p, w2) \<Rightarrow> ((SpecStatePanicked, snd (runner_reports env (trace w2))), w2))"

subsection \<open>Publishing and observing the state (lines 83-143)\<close>

definition ToJSON :: "env \<Rightarrow> RemoteState \<Rightarrow> string" where
  "ToJSON env r = json_Marshal env r"

definition state_url :: "compoundBeforeSuiteNode \<Rightarrow> string" where
  "state_url nd = syncHost nd @ ''/BeforeSuiteState''"

definition runA :: "env \<Rightarrow> world \<Rightarrow> (SpecState \<times> SpecFailure) \<times> world" where
  "runA env w =
     (case runner_run env PhaseA w of
        ((outcome_A, failure_A), w1) \<Rightarrow>
          if totalGinkgoNodes (the_node w1) > 1
          then
            (let state = (if outcome_A \<noteq> SpecStatePassed then RemoteStateStateFailed
                          else RemoteStateStatePassed);
                 json = ToJSON env \<lparr>Data = data (the_node w1), State = state\<rparr>;
                 w2 = emit (HttpPost (state_url (the_node w1)) ''application/json'' json
                              (http_Post_err env (trace w1))) w1
             in ((outcome_A, failure_A), w2))
          else ((outcome_A, failure_A), w1))"

text \<open>The closure \<^verbatim>\<open>failure\<close> of \<^verbatim>\<open>waitForA\<close> (lines 102-110).\<close>

definition waitForA_failure :: "compoundBeforeSuiteNode \<Rightarrow> string \<Rightarrow> SpecFailure" where
  "waitForA_failure nd message =
     \<lparr>Message = message,
      Location = codeLocation (runnerA nd),
      ComponentType = nodeType (runnerA nd),
      ComponentIndex = componentIndex (runnerA nd),
      ComponentCodeLocation = codeLocation (runnerA nd)\<rparr>"

text \<open>
  The poll loop of \<^verbatim>\<open>waitForA\<close>. The source's loop has no bound, and the return
  after it (line 142) is never reached. The first argument
  after the environment bounds the number of iterations: with \<open>0\<close> left the loop is cut
  and the result is \<open>None\<close>, together with the node and the trace at that point. So
  \<open>waitForA env n w\<close> is the run of the loop up to its \<open>n\<close>-th GET, and the loop returns
  if and only if some \<open>n\<close> gives a result.
\<close>

fun waitForA ::
  "env \<Rightarrow> nat \<Rightarrow> world \<Rightarrow> (SpecState \<times> SpecFailure) option \<times> world" where
  "waitForA env 0 w = (None, w)"
| "waitForA env (Suc n) w =
     (let nd = the_node w;
          resp = http_Get env (trace w) (state_url nd);
          w1 = emit (HttpGet (state_url nd)) w
      in case resp of
           None \<Rightarrow>
             (Some (SpecStateFailed, waitForA_failure nd ''Failed to fetch BeforeSuite state''), w1)
         | Some rsp \<Rightarrow>
             if StatusCode rsp \<noteq> http_StatusOK
             then (Some (SpecStateFailed,
                         waitForA_failure nd ''Failed to fetch BeforeSuite state''), w1)
             else
               (case Body rsp of
                  None \<Rightarrow>
                    (Some (SpecStateFailed,
                           waitForA_failure nd ''Failed to read BeforeSuite state''), w1)
                | Some body \<Rightarrow>
                    (let w2 = emit BodyClose w1 in
                     case json_Unmarshal env body of
                       None \<Rightarrow>
                         (Some (SpecStateFailed,
                                waitForA_failure nd ''Failed to decode BeforeSuite state''), w2)
                     | Some r \<Rightarrow>
                         if State r = RemoteStateStatePassed
                         then (Some (SpecStatePassed, SpecFailure_zero), set_data (Data r) w2)
                         else if State r = RemoteStateStateFailed
                         then (Some (SpecStateFailed,
                                     waitForA_failure nd ''BeforeSuite on Node 1 failed''), w2)
                         else if State r = RemoteStateStateDisappeared
                         then (Some (SpecStateFailed,
                                     waitForA_failure nd
                                       ''Node 1 dissappeared before completing BeforeSuite''), w2)
                         else waitForA env n (emit (Sleep 50) w2))))"

subsection \<open>Run, Passed and Summary (lines 63-81 and 145-157)\<close>

text \<open>
  Lines 69-73 of \<^verbatim>\<open>Run\<close>: node 1 runs phase A, every other node waits for it. The
  result is \<open>None\<close> when the wait was cut.
\<close>

definition Run_phaseA ::
  "env \<Rightarrow> nat \<Rightarrow> world \<Rightarrow> (SpecState \<times> SpecFailure) option \<times> world" where
  "Run_phaseA env n w =
     (if ginkgoNode (the_node w) = 1
      then (case runA env w of (r, w1) \<Rightarrow> (Some r, w1))
      else waitForA env n w)"

text \<open>
  \<^verbatim>\<open>Run\<close>. The deferred function sets \<^verbatim>\<open>runTime\<close> when \<^verbatim>\<open>Run\<close> returns. The result is
  \<open>None\<close> when the wait for phase A was cut, that is, when \<^verbatim>\<open>Run\<close> has not returned yet.
\<close>

definition Run :: "env \<Rightarrow> nat \<Rightarrow> world \<Rightarrow> bool option \<times> world" where
  "Run env n w =
     (let t = time_Now env (trace w) in
      case Run_phaseA env n w of
        (None, w1) \<Rightarrow> (None, w1)
      | (Some (outcome_A, failure_A), w1) \<Rightarrow>
          (let w2 = set_outcome outcome_A failure_A w1 in
           if outcome (the_node w2) \<noteq> SpecStatePassed
           then (Some False, set_runTime (time_Now env (trace w2) - t) w2)
           else
             (case runner_run env PhaseB w2 of
                ((outcome_B, failure_B), w3) \<Rightarrow>
                  (let w4 = set_outcome outcome_B failure_B w3 in
                   (Some (outcome (the_node w4) = SpecStatePassed),
                    set_runTime (time_Now env (trace w4) - t) w4)))))"

definition Passed :: "compoundBeforeSuiteNode \<Rightarrow> bool" where
  "Passed nd = (outcome nd = SpecStatePassed)"

text \<open>
  Modelled from the spec: \<^verbatim>\<open>types.SetupSummary\<close> is declared outside the given source
  file; these are the five fields that \<^verbatim>\<open>Summary\<close> sets.
\<close>

record SetupSummary =
  Summary_ComponentType :: SpecComponentType
  Summary_CodeLocation :: CodeLocation
  Summary_State :: SpecState
  Summary_RunTime :: int
  Summary_Failure :: SpecFailure

definition Summary :: "compoundBeforeSuiteNode \<Rightarrow> SetupSummary" where
  "Summary nd =
     \<lparr>Summary_ComponentType = nodeType (runnerA nd),
      Summary_CodeLocation = codeLocation (runnerA nd),
      Summary_State = outcome nd,
      Summary_RunTime = runTime nd,
      Summary_Failure = failure nd\<rparr>"

text \<open>The events that a run added to the trace.\<close>

definition new_events :: "world \<Rightarrow> world \<Rightarrow> event list" where
  "new_events w w' = drop (length (trace w)) (trace w')"

text \<open>Two nodes that differ at most in \<^verbatim>\<open>data\<close>.\<close>

definition same_but_data ::
  "compoundBeforeSuiteNode \<Rightarrow> compoundBeforeSuiteNode \<Rightarrow> bool" where
  "same_but_data nd nd' =
     (runnerA nd' = runnerA nd \<and> runnerB nd' = runnerB nd \<and> ginkgoNode nd' = ginkgoNode nd \<and>
      totalGinkgoNodes nd' = totalGinkgoNodes nd \<and> syncHost nd' = syncHost nd \<and>
      outcome nd' = outcome nd \<and> failure nd' = failure nd \<and> runTime nd' = runTime nd)"

text \<open>
  The next GET is answered with status 200, a readable body and a record that decodes
  to a state other than Passed, Failed and Disappeared; \<open>after_poll\<close> is the world
  after such an iteration.
\<close>

definition keeps_polling :: "env \<Rightarrow> world \<Rightarrow> bool" where
  "keeps_polling env w =
     (case http_Get env (trace w) (state_url (the_node w)) of
        None \<Rightarrow> False
      | Some rsp \<Rightarrow>
          StatusCode rsp = http_StatusOK \<and>
          (case Body rsp of
             None \<Rightarrow> False
           | Some body \<Rightarrow>
               (case json_Unmarshal env body of
                  None \<Rightarrow> False
                | Some r \<Rightarrow>
                    State r \<noteq> RemoteStateStatePassed \<and> State r \<noteq> RemoteStateStateFailed \<and>
                    State r \<noteq> RemoteStateStateDisappeared)))"

definition after_poll :: "world \<Rightarrow> world" where
  "after_poll w = emit (Sleep 50) (emit BodyClose (emit (HttpGet (state_url (the_node w))) w))"

subsection \<open>The accepted shapes, in the words of the spec\<close>

text \<open>
  The first function is \<^verbatim>\<open>() -> bytes\<close> or \<^verbatim>\<open>(cancellationSignal) -> bytes\<close>, the second
  \<^verbatim>\<open>(bytes) -> void\<close> or \<^verbatim>\<open>(bytes, cancellationSignal) -> void\<close>; \<open>names_first_argument\<close>
  and \<open>names_second_argument\<close> are the panics whose message names the argument.
\<close>

definition spec_producer_shape :: "iface \<Rightarrow> bool" where
  "spec_producer_shape f =
     (f = Dyn (FuncT [] None [bytesT]) \<or> f = Dyn (FuncT [doneT] None [bytesT]))"

definition spec_consumer_shape :: "iface \<Rightarrow> bool" where
  "spec_consumer_shape f =
     (f = Dyn (FuncT [bytesT] None []) \<or> f = Dyn (FuncT [bytesT, doneT] None []))"

definition names_first_argument :: "panic \<Rightarrow> bool" where
  "names_first_argument p =
     (p = Panic ''CompoundBeforeSuite expects a function as its first argument'' \<or>
      p = Panic ''CompoundBeforeSuite's first argument should be a function that returns []byte and either takes no arguments or takes a Done channel.'')"

definition names_second_argument :: "panic \<Rightarrow> bool" where
  "names_second_argument p =
     (p = Panic ''CompoundBeforeSuite expects a function as its second argument'' \<or>
      p = Panic ''CompoundBeforeSuite's second argument should be a function that returns nothing and either takes []byte or ([]byte, Done)'')"

subsection \<open>A concrete suite\<close>

text \<open>
  A node as \<^verbatim>\<open>NewCompoundBeforeSuiteNode\<close> builds it from \<^verbatim>\<open>func() []byte\<close> and
  \<^verbatim>\<open>func([]byte)\<close>, and an environment in which: the first function returns the bytes
  1, 2, 3 when phase A is to pass; the runners report the two given outcomes; the
  server answers the \<open>k\<close>-th GET with the \<open>k\<close>-th entry of a list and refuses the
  connection afterwards; and the wire format is a word for the state, followed for a
  passed state by the payload.
\<close>

definition example_location :: CodeLocation where
  "example_location = \<lparr>FileName = ''suite_test.go'', LineNumber = 12\<rparr>"

definition example_bodyA :: iface where
  "example_bodyA = Dyn (FuncT [] None [SliceT (BasicT go_uint8)])"

definition example_bodyB :: iface where
  "example_bodyB = Dyn (FuncT [SliceT (BasicT go_uint8)] None [])"

definition example_node :: "int \<Rightarrow> int \<Rightarrow> compoundBeforeSuiteNode" where
  "example_node g t =
     \<lparr>runnerA = newRunner (WrapA_NoArgs (FuncT [] None [SliceT (BasicT go_uint8)]))
                  example_location 1000 SpecComponentTypeBeforeSuite 0,
      runnerB = newRunner (WrapB_NoArgs (FuncT [SliceT (BasicT go_uint8)] None []))
                  example_location 1000 SpecComponentTypeBeforeSuite 0,
      ginkgoNode = g, totalGinkgoNodes = t, syncHost = ''http://127.0.0.1:7788'',
      data = [], outcome = SpecStateInvalid, failure = SpecFailure_zero, runTime = 0\<rparr>"

definition example_world :: "int \<Rightarrow> int \<Rightarrow> world" where
  "example_world g t = \<lparr>the_node = example_node g t, trace = []\<rparr>"

definition example_failure :: SpecFailure where
  "example_failure =
     \<lparr>Message = ''boom'', Location = example_location,
      ComponentType = SpecComponentTypeBeforeSuite, ComponentIndex = 0,
      ComponentCodeLocation = example_location\<rparr>"

definition example_report :: "SpecState \<Rightarrow> SpecState \<times> SpecFailure" where
  "example_report s = (s, if s = SpecStatePassed then SpecFailure_zero else example_failure)"

definition example_unmarshal :: "string \<Rightarrow> RemoteState option" where
  "example_unmarshal body =
     (if body = ''invalid'' then Some \<lparr>Data = [], State = 0\<rparr>
      else if body = ''pending'' then Some \<lparr>Data = [], State = 1\<rparr>
      else if body = ''passed 1 2 3'' then Some \<lparr>Data = [1, 2, 3], State = 2\<rparr>
      else if body = ''failed'' then Some \<lparr>Data = [], State = 3\<rparr>
      else if body = ''disappeared'' then Some \<lparr>Data = [], State = 4\<rparr>
      else None)"

definition example_marshal :: "RemoteState \<Rightarrow> string" where
  "example_marshal r =
     (if State r = 2 then (if Data r = [1, 2, 3] then ''passed 1 2 3'' else ''passed'')
      else if State r = 3 then ''failed''
      else ''other'')"

definition example_env :: "SpecState \<Rightarrow> SpecState \<Rightarrow> Response option list \<Rightarrow> env" where
  "example_env a b rs =
     \<lparr>time_Now = (\<lambda>tr. int (length tr)),
      bodyA_returns = (\<lambda>tr. if a = SpecStatePassed then Some [1, 2, 3] else None),
      runner_reports =
        (\<lambda>tr. if RunnerRun PhaseB \<in> set tr then example_report b else example_report a),
      http_Post_err = (\<lambda>tr. False),
      http_Get =
        (\<lambda>tr url. if length (filter is_get tr) < length rs
                   then rs ! length (filter is_get tr) else None),
      json_Marshal = example_marshal,
      json_Unmarshal = example_unmarshal\<rparr>"

definition ok_response :: "string \<Rightarrow> Response option" where
  "ok_response body = Some \<lparr>StatusCode = 200, Body = Some body\<rparr>"

text \<open>
  Functions that the constructor accepts and the closures cannot call:
  \<^verbatim>\<open>func() MyBytes\<close> with \<^verbatim>\<open>type MyBytes []byte\<close>, and
  \<^verbatim>\<open>func([]byte, chan interface{})\<close>.
\<close>

definition named_result_bodyA :: iface where
  "named_result_bodyA = Dyn (FuncT [] None [NamedT ''MyBytes'' (SliceT (BasicT go_uint8))])"

definition bidirectional_chan_bodyB :: iface where
  "bidirectional_chan_bodyB =
     Dyn (FuncT [SliceT (BasicT go_uint8), ChanT BothDir (InterfaceT [])] None [])"

definition named_result_node :: "int \<Rightarrow> int \<Rightarrow> compoundBeforeSuiteNode" where
  "named_result_node g t =
     (example_node g t)
       \<lparr>runnerA := newRunner
          (WrapA_NoArgs (FuncT [] None [NamedT ''MyBytes'' (SliceT (BasicT go_uint8))]))
          example_location 1000 SpecComponentTypeBeforeSuite 0\<rparr>"

definition bidirectional_chan_node :: "int \<Rightarrow> int \<Rightarrow> compoundBeforeSuiteNode" where
  "bidirectional_chan_node g t =
     (example_node g t)
       \<lparr>runnerB := newRunner
          (WrapB_Done (FuncT [SliceT (BasicT go_uint8), ChanT BothDir (InterfaceT [])] None []))
          example_location 1000 SpecComponentTypeBeforeSuite 0\<rparr>"

section \<open>Properties\<close>

subsection \<open>What each operation adds to the trace and changes in the node\<close>

lemmas RemoteStateState_defs =
  RemoteStateStateInvalid_def RemoteStateStatePending_def RemoteStateStatePassed_def
  RemoteStateStateFailed_def RemoteStateStateDisappeared_def

lemma trace_emit [simp]: "trace (emit e w) = trace w @ [e]"
  by (simp add: emit_def)

lemma the_node_emit [simp]: "the_node (emit e w) = the_node w"
  by (simp add: emit_def)

lemma trace_set_data [simp]: "trace (set_data bs w) = trace w"
  by (simp add: set_data_def)

lemma the_node_set_data [simp]: "the_node (set_data bs w) = (the_node w)\<lparr>data := bs\<rparr>"
  by (simp add: set_data_def)

lemma trace_set_outcome [simp]: "trace (set_outcome oc fl w) = trace w"
  by (simp add: set_outcome_def)

lemma the_node_set_outcome [simp]:
  "the_node (set_outcome oc fl w) = (the_node w)\<lparr>outcome := oc, failure := fl\<rparr>"
  by (simp add: set_outcome_def)

lemma trace_set_runTime [simp]: "trace (set_runTime d w) = trace w"
  by (simp add: set_runTime_def)

lemma the_node_set_runTime [simp]:
  "the_node (set_runTime d w) = (the_node w)\<lparr>runTime := d\<rparr>"
  by (simp add: set_runTime_def)

lemma new_events_append [simp]: "trace w' = trace w @ evs \<Longrightarrow> new_events w w' = evs"
  by (simp add: new_events_def)

lemma is_call_not_network: "is_call e \<Longrightarrow> \<not> is_network e \<and> \<not> is_post e \<and> \<not> is_get e \<and> e \<noteq> RunnerRun ph"
  by (cases e) auto

lemma is_poll_not_post: "is_poll e \<Longrightarrow> \<not> is_post e \<and> e \<noteq> RunnerRun ph \<and> \<not> is_call e"
  by (cases e) auto

lemma is_post_not_get: "is_post e \<Longrightarrow> \<not> is_get e \<and> e \<noteq> RunnerRun ph \<and> \<not> is_call e"
  by (cases e) auto

text \<open>
  A closure adds at most one event, the call of the user's function, and changes at most
  \<^verbatim>\<open>node.data\<close>.
\<close>

lemma call_bodyA_trace:
  "call_bodyA env t d w = (res, w') \<Longrightarrow>
   \<exists>es. trace w' = trace w @ es \<and> (es = [] \<or> es = [CallBodyA d])"
  by (auto simp: call_bodyA_def split: option.splits sum.splits if_splits)

lemma call_bodyB_trace:
  "call_bodyB t d w = (res, w') \<Longrightarrow>
   \<exists>es. trace w' = trace w @ es \<and> (es = [] \<or> es = [CallBodyB (data (the_node w)) d]) \<and>
     the_node w' = the_node w"
  by (auto simp: call_bodyB_def split: option.splits)

lemma call_wrapped_trace:
  "call_wrapped env f w = (res, w') \<Longrightarrow>
   \<exists>es. trace w' = trace w @ es \<and> (\<forall>e\<in>set es. is_call e) \<and> length es \<le> 1"
proof (cases f)
  case (WrapA_Done t)
  assume "call_wrapped env f w = (res, w')"
  with WrapA_Done call_bodyA_trace [of env t True w res w'] show ?thesis by auto
next
  case (WrapA_NoArgs t)
  assume "call_wrapped env f w = (res, w')"
  with WrapA_NoArgs call_bodyA_trace [of env t False w res w'] show ?thesis by auto
next
  case (WrapB_Done t)
  assume "call_wrapped env f w = (res, w')"
  with WrapB_Done call_bodyB_trace [of t True w res w'] show ?thesis by auto
next
  case (WrapB_NoArgs t)
  assume "call_wrapped env f w = (res, w')"
  with WrapB_NoArgs call_bodyB_trace [of t False w res w'] show ?thesis by auto
qed

lemma call_wrapped_node:
  "call_wrapped env f w = (res, w') \<Longrightarrow> same_but_data (the_node w) (the_node w')"
  by (cases f)
     (auto simp: call_bodyA_def call_bodyB_def same_but_data_def
           split: option.splits sum.splits if_splits)

lemma runner_run_unfold:
  "\<exists>res w2. call_wrapped env (rfunc (runner_of ph (the_node w))) (emit (RunnerRun ph) w) =
             (res, w2) \<and>
     snd (runner_run env ph w) = w2 \<and>
     fst (runner_run env ph w) =
       (case res of None \<Rightarrow> runner_reports env (trace w2)
        | Some p \<Rightarrow> (SpecStatePanicked, snd (runner_reports env (trace w2))))"
  by (cases "call_wrapped env (rfunc (runner_of ph (the_node w))) (emit (RunnerRun ph) w)")
     (auto simp: runner_run_def Let_def split: option.splits)

lemma runner_run_trace:
  "runner_run env ph w = (r, w') \<Longrightarrow>
   \<exists>es. trace w' = trace w @ RunnerRun ph # es \<and> (\<forall>e\<in>set es. is_call e) \<and> length es \<le> 1"
proof -
  assume a: "runner_run env ph w = (r, w')"
  from runner_run_unfold [of env ph w] a obtain res
    where "call_wrapped env (rfunc (runner_of ph (the_node w))) (emit (RunnerRun ph) w) = (res, w')"
    by auto
  from call_wrapped_trace [OF this] show ?thesis by auto
qed

lemma runner_run_node:
  "runner_run env ph w = (r, w') \<Longrightarrow> same_but_data (the_node w) (the_node w')"
proof -
  assume a: "runner_run env ph w = (r, w')"
  from runner_run_unfold [of env ph w] a obtain res
    where "call_wrapped env (rfunc (runner_of ph (the_node w))) (emit (RunnerRun ph) w) = (res, w')"
    by auto
  from call_wrapped_node [OF this] show ?thesis by simp
qed

lemma call_wrapped_post_irrelevant:
  "call_wrapped (env\<lparr>http_Post_err := p\<rparr>) f w = call_wrapped env f w"
  by (cases f) (simp_all add: call_bodyA_def call_bodyB_def cong: option.case_cong)

lemma runner_run_post_irrelevant:
  "runner_run (env\<lparr>http_Post_err := p\<rparr>) ph w = runner_run env ph w"
  by (simp add: runner_run_def Let_def call_wrapped_post_irrelevant
           split: prod.splits option.splits)

lemma runA_trace:
  assumes "runA env w = (r, w')"
  shows "\<exists>es ps. trace w' = trace w @ RunnerRun PhaseA # es @ ps \<and>
     (\<forall>e\<in>set es. is_call e) \<and> (\<forall>p\<in>set ps. is_post p) \<and>
     length ps = (if totalGinkgoNodes (the_node w) > 1 then 1 else 0)"
proof -
  obtain oc fl w1 where rr: "runner_run env PhaseA w = ((oc, fl), w1)"
    by (cases "runner_run env PhaseA w") auto
  from runner_run_trace [OF rr] obtain es
    where es: "trace w1 = trace w @ RunnerRun PhaseA # es" "\<forall>e\<in>set es. is_call e" by blast
  from runner_run_node [OF rr]
  have tot: "totalGinkgoNodes (the_node w1) = totalGinkgoNodes (the_node w)"
    by (simp add: same_but_data_def)
  show ?thesis
  proof (cases "1 < totalGinkgoNodes (the_node w)")
    case True
    let ?p = "HttpPost (state_url (the_node w1)) ''application/json''
                (ToJSON env \<lparr>Data = data (the_node w1),
                   State = (if oc \<noteq> SpecStatePassed then RemoteStateStateFailed
                            else RemoteStateStatePassed)\<rparr>)
                (http_Post_err env (trace w1))"
    from True assms rr tot have "trace w' = trace w1 @ [?p]"
      by (auto simp: runA_def Let_def)
    then obtain p where p: "is_post p" "trace w' = trace w1 @ [p]"
      by (intro that [of ?p]) simp_all
    with es True show ?thesis
      by (intro exI [of _ es] exI [of _ "[p]"]) simp
  next
    case False
    with assms rr tot have "w' = w1" by (simp add: runA_def)
    with es False show ?thesis
      by (intro exI [of _ es] exI [of _ "[]"]) simp
  qed
qed

lemma runA_node:
  "runA env w = (r, w') \<Longrightarrow> same_but_data (the_node w) (the_node w')"
  apply (cases "runner_run env PhaseA w")
  subgoal for r1 w1
    using runner_run_node [of env PhaseA w r1 w1]
    by (cases r1) (auto simp: runA_def Let_def same_but_data_def split: if_splits)
  done

lemma waitForA_continue:
  "keeps_polling env w \<Longrightarrow> waitForA env (Suc n) w = waitForA env n (after_poll w)"
  by (auto simp: keeps_polling_def after_poll_def Let_def split: option.splits)

lemma waitForA_stop:
  "\<not> keeps_polling env w \<Longrightarrow> waitForA env (Suc n) w = (r, w') \<Longrightarrow>
   r \<noteq> None \<and> same_but_data (the_node w) (the_node w') \<and>
   (trace w' = trace w @ [HttpGet (state_url (the_node w))] \<or>
    trace w' = trace w @ [HttpGet (state_url (the_node w)), BodyClose])"
  by (auto simp: keeps_polling_def Let_def same_but_data_def split: option.splits if_splits)

lemma waitForA_trace:
  "waitForA env n w = (r, w') \<Longrightarrow>
   \<exists>evs. trace w' = trace w @ evs \<and> (\<forall>e\<in>set evs. is_poll e)"
proof (induction n arbitrary: w)
  case 0
  then show ?case by simp
next
  case (Suc n)
  show ?case
  proof (cases "keeps_polling env w")
    case True
    with Suc.prems have "waitForA env n (after_poll w) = (r, w')"
      by (simp only: waitForA_continue)
    from Suc.IH [OF this] show ?thesis by (auto simp: after_poll_def)
  next
    case False
    from waitForA_stop [OF False Suc.prems] show ?thesis by auto
  qed
qed

lemma waitForA_node:
  "waitForA env n w = (r, w') \<Longrightarrow> same_but_data (the_node w) (the_node w')"
proof (induction n arbitrary: w)
  case 0
  then show ?case by (simp add: same_but_data_def)
next
  case (Suc n)
  show ?case
  proof (cases "keeps_polling env w")
    case True
    with Suc.prems have "waitForA env n (after_poll w) = (r, w')"
      by (simp only: waitForA_continue)
    from Suc.IH [OF this] show ?thesis by (auto simp: after_poll_def same_but_data_def)
  next
    case False
    from waitForA_stop [OF False Suc.prems] show ?thesis by auto
  qed
qed

lemma waitForA_never_returns:
  assumes "\<And>v. keeps_polling env v"
  shows "fst (waitForA env n w) = None"
proof (induction n arbitrary: w)
  case 0
  show ?case by simp
next
  case (Suc n)
  from assms have "waitForA env (Suc n) w = waitForA env n (after_poll w)"
    by (rule waitForA_continue)
  with Suc.IH show ?case by simp
qed

lemma waitForA_fuel_mono:
  "waitForA env n w = (Some r, w') \<Longrightarrow> waitForA env (n + m) w = (Some r, w')"
proof (induction n arbitrary: w)
  case 0
  then show ?case by simp
next
  case (Suc n)
  show ?case
  proof (cases "keeps_polling env w")
    case True
    with Suc.prems have "waitForA env n (after_poll w) = (Some r, w')"
      by (simp only: waitForA_continue)
    from Suc.IH [OF this] True show ?thesis
      by (simp only: waitForA_continue add_Suc)
  next
    case False
    with Suc.prems show ?thesis
      by (auto simp: keeps_polling_def Let_def split: option.splits if_splits)
  qed
qed

lemma Run_phaseA_trace:
  "Run_phaseA env n w = (r, wA) \<Longrightarrow>
   \<exists>evs. trace wA = trace w @ evs \<and> RunnerRun PhaseB \<notin> set evs"
proof (cases "ginkgoNode (the_node w) = 1")
  case True
  assume a: "Run_phaseA env n w = (r, wA)"
  obtain r1 w1 where r1: "runA env w = (r1, w1)" by (cases "runA env w")
  with a True have "w1 = wA" by (simp add: Run_phaseA_def)
  with runA_trace [OF r1] show ?thesis by force
next
  case False
  assume a: "Run_phaseA env n w = (r, wA)"
  with False have "waitForA env n w = (r, wA)" by (simp add: Run_phaseA_def)
  from waitForA_trace [OF this] show ?thesis by force
qed

lemma Run_phaseA_node:
  "Run_phaseA env n w = (r, wA) \<Longrightarrow> same_but_data (the_node w) (the_node wA)"
  using runA_node [of env w] waitForA_node [of env n w r wA]
  by (cases "runA env w") (auto simp: Run_phaseA_def split: if_splits)

text \<open>What \<open>Run\<close> adds to the trace: the events of phase A and, if it ran, of phase B.\<close>

lemma Run_trace:
  assumes "Run env n w = (b, w')" and "Run_phaseA env n w = (r, wA)"
  shows "\<exists>evsB. trace w' = trace wA @ evsB \<and>
           (evsB = [] \<or> (\<exists>es. (\<forall>e\<in>set es. is_call e) \<and> evsB = RunnerRun PhaseB # es))"
proof (cases r)
  case None
  with assms show ?thesis by (simp add: Run_def)
next
  case (Some p)
  obtain oc fl where p: "p = (oc, fl)" by (cases p)
  show ?thesis
  proof (cases "oc = SpecStatePassed")
    case False
    with assms Some p show ?thesis by (auto simp: Run_def Let_def)
  next
    case True
    obtain rB wB where rb: "runner_run env PhaseB (set_outcome oc fl wA) = (rB, wB)"
      by (cases "runner_run env PhaseB (set_outcome oc fl wA)")
    from runner_run_trace [OF rb] obtain es
      where e: "\<forall>e\<in>set es. is_call e" "trace wB = trace wA @ RunnerRun PhaseB # es" by auto
    from assms Some p True rb have "trace w' = trace wB"
      by (cases rB) (auto simp: Run_def Let_def)
    with e show ?thesis by auto
  qed
qed

text \<open>A wait that returns an outcome other than Passed ends the run.\<close>

lemma Run_follower_failed:
  assumes "ginkgoNode (the_node w) \<noteq> 1"
      and "waitForA env n w = (Some (oc, fl), wA)"
      and "oc \<noteq> SpecStatePassed"
  shows "Run env n w =
           (Some False,
            set_runTime (time_Now env (trace wA) - time_Now env (trace w))
              (set_outcome oc fl wA))"
  using assms by (simp add: Run_def Run_phaseA_def Let_def)


subsection \<open>The closures of \<open>wrapA\<close> and \<open>wrapB\<close>\<close>

lemma wrapA_closure:
  "wrapA b = Inr f \<Longrightarrow> \<exists>t. b = Dyn t \<and> (f = WrapA_Done t \<or> f = WrapA_NoArgs t)"
  by (cases b) (auto simp: wrapA_def split: sum.splits if_splits)

lemma wrapB_closure:
  "wrapB b = Inr f \<Longrightarrow> \<exists>t. b = Dyn t \<and> (f = WrapB_Done t \<or> f = WrapB_NoArgs t)"
  by (cases b) (auto simp: wrapB_def split: sum.splits if_splits)

text \<open>
  Runner B with a closure of \<open>wrapB\<close>: the second function is called with
  \<^verbatim>\<open>node.data\<close> or, when \<^verbatim>\<open>Call\<close> panics, not at all; the node is unchanged.
\<close>

lemma runner_run_wrapB:
  assumes "wrapB b = Inr (rfunc (runner_of ph (the_node w)))"
  shows "\<exists>r w' es. runner_run env ph w = (r, w') \<and>
           trace w' = trace w @ RunnerRun ph # es \<and>
           (es = [] \<or> (\<exists>d. es = [CallBodyB (data (the_node w)) d])) \<and>
           the_node w' = the_node w"
proof -
  from wrapB_closure [OF assms] obtain t d
    where f: "call_wrapped env (rfunc (runner_of ph (the_node w))) (emit (RunnerRun ph) w) =
                call_bodyB t d (emit (RunnerRun ph) w)"
    by auto
  obtain res w2 where c: "call_bodyB t d (emit (RunnerRun ph) w) = (res, w2)"
    by (cases "call_bodyB t d (emit (RunnerRun ph) w)")
  from call_bodyB_trace [OF c] obtain es
    where es: "trace w2 = trace w @ RunnerRun ph # es"
      "es = [] \<or> es = [CallBodyB (data (the_node w)) d]" "the_node w2 = the_node w"
    by auto
  from runner_run_unfold [of env ph w] f c have "snd (runner_run env ph w) = w2" by auto
  with es show ?thesis
    by (cases "runner_run env ph w") auto
qed

text \<open>The closures of functions of the declared shapes do not panic.\<close>

lemmas shape_defs =
  takesNothing_def takesADoneChannel_def returnsBytes_def returnsNothing_def
  takesBytesOnly_def takesBytesAndDone_def num_is_def kind_is_def elem_of_def andalso_def

lemma wrapA_declared:
  "wrapA (Dyn (FuncT [] None [bytesT])) = Inr (WrapA_NoArgs (FuncT [] None [bytesT]))"
  "wrapA (Dyn (FuncT [doneT] None [bytesT])) = Inr (WrapA_Done (FuncT [doneT] None [bytesT]))"
  by (simp_all add: wrapA_def shape_defs bytesT_def doneT_def)

lemma wrapB_declared:
  "wrapB (Dyn (FuncT [bytesT] None [])) = Inr (WrapB_NoArgs (FuncT [bytesT] None []))"
  "wrapB (Dyn (FuncT [bytesT, doneT] None [])) =
     Inr (WrapB_Done (FuncT [bytesT, doneT] None []))"
  by (simp_all add: wrapB_def shape_defs bytesT_def doneT_def)

lemma assignable_refl [simp]: "assignable t t"
  by (simp add: assignable_def directlyAssignable_def)

lemma runner_run_declared_consumer:
  assumes "spec_consumer_shape bodyB"
      and "wrapB bodyB = Inr (rfunc (runner_of ph (the_node w)))"
  shows "\<exists>d. runner_run env ph w =
           (runner_reports env (trace w @ [RunnerRun ph, CallBodyB (data (the_node w)) d]),
            w\<lparr>trace := trace w @ [RunnerRun ph, CallBodyB (data (the_node w)) d]\<rparr>)"
proof -
  from assms
  have "rfunc (runner_of ph (the_node w)) = WrapB_NoArgs (FuncT [bytesT] None []) \<or>
        rfunc (runner_of ph (the_node w)) = WrapB_Done (FuncT [bytesT, doneT] None [])"
    by (auto simp: spec_consumer_shape_def wrapB_declared)
  then show ?thesis
    by (auto simp: runner_run_def Let_def call_bodyB_def emit_def)
qed

lemma runner_run_declared_producer:
  assumes "spec_producer_shape bodyA"
      and "wrapA bodyA = Inr (rfunc (runner_of ph (the_node w)))"
      and "bodyA_returns env (trace w @ [RunnerRun ph]) = Some out"
  shows "\<exists>d. runner_run env ph w =
           (runner_reports env (trace w @ [RunnerRun ph, CallBodyA d]),
            set_data out (w\<lparr>trace := trace w @ [RunnerRun ph, CallBodyA d]\<rparr>))"
proof -
  from assms(1,2)
  have "rfunc (runner_of ph (the_node w)) = WrapA_NoArgs (FuncT [] None [bytesT]) \<or>
        rfunc (runner_of ph (the_node w)) = WrapA_Done (FuncT [doneT] None [bytesT])"
    by (auto simp: spec_producer_shape_def wrapA_declared)
  with assms(3) show ?thesis
    by (auto simp: runner_run_def Let_def call_bodyA_def emit_def set_data_def)
qed

lemma Run_after_passed_phaseA:
  assumes "Run_phaseA env n w = (Some (SpecStatePassed, fl), wA)"
      and "spec_consumer_shape bodyB"
      and "wrapB bodyB = Inr (rfunc (runnerB (the_node w)))"
  shows "\<exists>b w' d. Run env n w = (Some b, w') \<and>
           trace w' = trace wA @ [RunnerRun PhaseB, CallBodyB (data (the_node wA)) d] \<and>
           data (the_node w') = data (the_node wA)"
proof -
  let ?w2 = "set_outcome SpecStatePassed fl wA"
  from Run_phaseA_node [OF assms(1)] have "runnerB (the_node ?w2) = runnerB (the_node w)"
    by (simp add: same_but_data_def)
  with assms(3) have "wrapB bodyB = Inr (rfunc (runner_of PhaseB (the_node ?w2)))"
    by (simp add: runner_of_def)
  from runner_run_declared_consumer [OF assms(2) this, of env] obtain d
    where rb: "runner_run env PhaseB ?w2 =
           (runner_reports env (trace ?w2 @ [RunnerRun PhaseB, CallBodyB (data (the_node ?w2)) d]),
            ?w2\<lparr>trace := trace ?w2 @ [RunnerRun PhaseB, CallBodyB (data (the_node ?w2)) d]\<rparr>)"
    by blast
  obtain ocB flB
    where rep: "runner_reports env (trace ?w2 @ [RunnerRun PhaseB, CallBodyB (data (the_node ?w2)) d]) = (ocB, flB)"
    by (cases "runner_reports env (trace ?w2 @ [RunnerRun PhaseB, CallBodyB (data (the_node ?w2)) d])")
  from assms(1) rb rep show ?thesis
    by (simp add: Run_def Let_def)
qed

lemma Run_trace_wrapB:
  assumes "Run env n w = (b, w')" and "Run_phaseA env n w = (r, wA)"
      and "wrapB bodyB = Inr (rfunc (runnerB (the_node w)))"
  shows "\<exists>evsB. trace w' = trace wA @ evsB \<and>
           (evsB = [] \<or> evsB = [RunnerRun PhaseB] \<or>
            (\<exists>bs d. evsB = [RunnerRun PhaseB, CallBodyB bs d]))"
proof (cases r)
  case None
  with assms show ?thesis by (simp add: Run_def)
next
  case (Some p)
  obtain oc fl where p: "p = (oc, fl)" by (cases p)
  show ?thesis
  proof (cases "oc = SpecStatePassed")
    case False
    with assms Some p show ?thesis by (auto simp: Run_def Let_def)
  next
    case True
    let ?w2 = "set_outcome oc fl wA"
    from Run_phaseA_node [OF assms(2)] have "runnerB (the_node ?w2) = runnerB (the_node w)"
      by (simp add: same_but_data_def)
    with assms(3) have "wrapB bodyB = Inr (rfunc (runner_of PhaseB (the_node ?w2)))"
      by (simp add: runner_of_def)
    from runner_run_wrapB [OF this, of env] obtain rB wB es
      where rb: "runner_run env PhaseB ?w2 = (rB, wB)"
        "trace wB = trace wA @ RunnerRun PhaseB # es"
        "es = [] \<or> (\<exists>d. es = [CallBodyB (data (the_node ?w2)) d])"
      by auto
    from assms(1,2) Some p True rb(1) have "trace w' = trace wB"
      by (cases rB) (auto simp: Run_def Let_def)
    with rb(2,3) show ?thesis by auto
  qed
qed

lemma follower_adopts_payload:
  assumes "http_Get env (trace w) (state_url (the_node w)) = Some rsp"
      and "StatusCode rsp = 200"
      and "Body rsp = Some body"
      and "json_Unmarshal env body = Some r"
      and "State r = RemoteStateStatePassed"
  shows "waitForA env (Suc n) w =
           (Some (SpecStatePassed, SpecFailure_zero),
            set_data (Data r) (w\<lparr>trace := trace w @ [HttpGet (state_url (the_node w)), BodyClose]\<rparr>))"
  using assms by (simp add: Let_def http_StatusOK_def emit_def)

subsection \<open>Claims about \<open>Run\<close>\<close>

text \<open>
  C1. On every node, when the outcome of phase A (the local run on node 1, the wait on
  every other node) is not Passed, \<open>Run\<close> returns false, the node's outcome and failure
  are those of phase A, the trace ends where phase A ended, and runner B was not run.
\<close>

theorem Run_stops_when_phaseA_not_passed:
  assumes "Run_phaseA env n w = (Some (oc, fl), wA)"
      and "oc \<noteq> SpecStatePassed"
  shows "\<exists>w'. Run env n w = (Some False, w') \<and>
           outcome (the_node w') = oc \<and> failure (the_node w') = fl \<and>
           trace w' = trace wA \<and> RunnerRun PhaseB \<notin> set (new_events w w')"
proof -
  let ?w' = "set_runTime (time_Now env (trace wA) - time_Now env (trace w)) (set_outcome oc fl wA)"
  from assms have run: "Run env n w = (Some False, ?w')"
    by (simp add: Run_def Let_def)
  from Run_phaseA_trace [OF assms(1)] obtain evs
    where evs: "trace wA = trace w @ evs" "RunnerRun PhaseB \<notin> set evs" by blast
  then have "trace ?w' = trace w @ evs" by simp
  then have "new_events w ?w' = evs" by (rule new_events_append)
  with run evs show ?thesis by simp
qed

text \<open>
  C10. When \<open>Run\<close> has returned, its boolean result is what \<open>Passed\<close> then returns,
  \<open>Passed\<close> holds exactly when the recorded outcome is Passed, and that happens only
  when phase A yielded Passed and runner B then reported Passed.
\<close>

theorem Run_result_is_Passed:
  assumes "Run env n w = (Some b, w')"
  shows "b = Passed (the_node w') \<and>
         (Passed (the_node w') \<longleftrightarrow> outcome (the_node w') = SpecStatePassed) \<and>
         (Passed (the_node w') \<longrightarrow>
            (\<exists>flA wA flB wB.
               Run_phaseA env n w = (Some (SpecStatePassed, flA), wA) \<and>
               runner_run env PhaseB (set_outcome SpecStatePassed flA wA) =
                 ((SpecStatePassed, flB), wB)))"
proof -
  obtain r wA where pa: "Run_phaseA env n w = (r, wA)" by (cases "Run_phaseA env n w")
  with assms obtain oc fl where r: "r = Some (oc, fl)"
    by (cases r) (auto simp: Run_def Let_def)
  show ?thesis
  proof (cases "oc = SpecStatePassed")
    case False
    with assms pa r show ?thesis
      by (auto simp: Run_def Let_def Passed_def)
  next
    case True
    obtain ocB flB wB where rb: "runner_run env PhaseB (set_outcome oc fl wA) = ((ocB, flB), wB)"
      by (cases "runner_run env PhaseB (set_outcome oc fl wA)") auto
    with assms pa r True show ?thesis
      by (auto simp: Run_def Let_def Passed_def)
  qed
qed

text \<open>
  C2. In every run, finished or still waiting: node 1 runs runner A exactly once, sends
  one POST when there is more than one node and none otherwise, and sends no GET; every
  other node never runs runner A, never POSTs, its only HTTP requests are GETs, and,
  when its runner B holds a closure of \<open>wrapB\<close>, it never calls the first function.
\<close>

theorem only_node_1_runs_producer_and_posts:
  assumes "Run env n w = (b, w')"
  shows "(ginkgoNode (the_node w) = 1 \<longrightarrow>
            length (filter (\<lambda>e. e = RunnerRun PhaseA) (new_events w w')) = 1 \<and>
            length (filter is_post (new_events w w')) =
              (if 1 < totalGinkgoNodes (the_node w) then 1 else 0) \<and>
            (\<forall>e\<in>set (new_events w w'). \<not> is_get e)) \<and>
         (ginkgoNode (the_node w) \<noteq> 1 \<longrightarrow>
            RunnerRun PhaseA \<notin> set (new_events w w') \<and>
            (\<forall>e\<in>set (new_events w w'). \<not> is_post e) \<and>
            (\<forall>e\<in>set (new_events w w'). is_network e \<longrightarrow> is_get e) \<and>
            ((\<exists>bodyB. wrapB bodyB = Inr (rfunc (runnerB (the_node w)))) \<longrightarrow>
               (\<forall>d. CallBodyA d \<notin> set (new_events w w'))))"
proof -
  obtain r wA where pa: "Run_phaseA env n w = (r, wA)" by (cases "Run_phaseA env n w")
  from Run_trace [OF assms pa] obtain evsB
    where evsB: "trace w' = trace wA @ evsB"
      "evsB = [] \<or> (\<exists>es. (\<forall>e\<in>set es. is_call e) \<and> evsB = RunnerRun PhaseB # es)" by blast
  from evsB(2) have evsB_props: "filter is_post evsB = []" "filter is_get evsB = []"
    "filter (\<lambda>e. e = RunnerRun PhaseA) evsB = []" "RunnerRun PhaseA \<notin> set evsB"
    "\<forall>e\<in>set evsB. \<not> is_network e"
    by (auto simp: filter_empty_conv dest: is_call_not_network)
  show ?thesis
  proof (cases "ginkgoNode (the_node w) = 1")
    case True
    obtain r1 w1 where r1: "runA env w = (r1, w1)" by (cases "runA env w")
    with pa True have "w1 = wA" by (simp add: Run_phaseA_def)
    with runA_trace [OF r1] obtain es ps
      where ps: "\<forall>e\<in>set es. is_call e" "trace wA = trace w @ RunnerRun PhaseA # es @ ps"
        "\<forall>p\<in>set ps. is_post p"
        "length ps = (if 1 < totalGinkgoNodes (the_node w) then 1 else 0)" by blast
    from ps(3) have nops: "filter (\<lambda>e. e = RunnerRun PhaseA) ps = []" "filter is_post ps = ps"
      "filter is_get ps = []"
      by (auto simp: filter_empty_conv dest: is_post_not_get)
    from ps(1) have noes: "filter (\<lambda>e. e = RunnerRun PhaseA) es = []" "filter is_post es = []"
      "filter is_get es = []"
      by (auto simp: filter_empty_conv dest: is_call_not_network)
    from evsB ps have new: "new_events w w' = RunnerRun PhaseA # es @ ps @ evsB"
      by (intro new_events_append) simp
    have "filter is_get (new_events w w') = []"
      unfolding new using nops noes evsB_props by simp
    then have "\<forall>e\<in>set (new_events w w'). \<not> is_get e"
      by (simp add: filter_empty_conv)
    with True ps(4) new nops noes evsB_props show ?thesis
      by simp
  next
    case False
    with pa have "waitForA env n w = (r, wA)" by (simp add: Run_phaseA_def)
    from waitForA_trace [OF this] obtain evs
      where evs: "trace wA = trace w @ evs" "\<forall>e\<in>set evs. is_poll e" by blast
    from evsB evs have new: "new_events w w' = evs @ evsB"
      by (intro new_events_append) simp
    have poll: "\<And>e. is_poll e \<Longrightarrow>
        e \<noteq> RunnerRun PhaseA \<and> \<not> is_post e \<and> (is_network e \<longrightarrow> is_get e) \<and> (\<forall>d. e \<noteq> CallBodyA d)"
      subgoal for e by (cases e) auto
      done
    have 1: "RunnerRun PhaseA \<notin> set (new_events w w')"
      "\<forall>e\<in>set (new_events w w'). \<not> is_post e"
      "\<forall>e\<in>set (new_events w w'). is_network e \<longrightarrow> is_get e"
      using new evs evsB(2) poll by (auto dest: is_call_not_network)
    have 2: "\<forall>d. CallBodyA d \<notin> set (new_events w w')"
      if "wrapB bodyB = Inr (rfunc (runnerB (the_node w)))" for bodyB
    proof -
      from Run_trace_wrapB [OF assms pa that] obtain evsB'
        where "trace w' = trace wA @ evsB'"
          "evsB' = [] \<or> evsB' = [RunnerRun PhaseB] \<or>
           (\<exists>bs d. evsB' = [RunnerRun PhaseB, CallBodyB bs d])" by blast
      with evsB(1) have "evsB = [] \<or> evsB = [RunnerRun PhaseB] \<or>
           (\<exists>bs d. evsB = [RunnerRun PhaseB, CallBodyB bs d])"
        by simp
      with new evs poll show ?thesis by auto
    qed
    from False 1 2 show ?thesis by blast
  qed
qed

text \<open>
  C3. With one node in total (whose ordinal is then 1), \<open>Run\<close> returns, sends no HTTP
  request, runs runner A once, and runs runner B exactly when runner A reported
  Passed.
\<close>

theorem single_node_no_network:
  assumes "totalGinkgoNodes (the_node w) = 1"
      and "1 \<le> ginkgoNode (the_node w)"
      and "ginkgoNode (the_node w) \<le> totalGinkgoNodes (the_node w)"
  shows "\<exists>b w'. Run env n w = (Some b, w') \<and>
           (\<forall>e\<in>set (new_events w w'). \<not> is_network e) \<and>
           length (filter (\<lambda>e. e = RunnerRun PhaseA) (new_events w w')) = 1 \<and>
           (RunnerRun PhaseB \<in> set (new_events w w') \<longleftrightarrow>
              fst (fst (runner_run env PhaseA w)) = SpecStatePassed)"
proof -
  from assms have one: "ginkgoNode (the_node w) = 1" by simp
  obtain oc fl wA where ra: "runner_run env PhaseA w = ((oc, fl), wA)"
    by (cases "runner_run env PhaseA w") auto
  from runner_run_node [OF ra] assms(1) have "totalGinkgoNodes (the_node wA) = 1"
    by (simp add: same_but_data_def)
  with ra have runA: "runA env w = ((oc, fl), wA)" by (simp add: runA_def)
  with one have pa: "Run_phaseA env n w = (Some (oc, fl), wA)" by (simp add: Run_phaseA_def)
  from runner_run_trace [OF ra] obtain es
    where e: "\<forall>e\<in>set es. is_call e" "trace wA = trace w @ RunnerRun PhaseA # es" by blast
  from e(1) have es: "filter (\<lambda>e. e = RunnerRun PhaseA) es = []" "RunnerRun PhaseB \<notin> set es"
    "\<forall>e\<in>set es. \<not> is_network e"
    by (auto simp: filter_empty_conv dest: is_call_not_network)
  obtain b w' where run: "Run env n w = (b, w')" by (cases "Run env n w")
  from Run_trace [OF run pa] obtain evsB
    where evsB: "trace w' = trace wA @ evsB"
      "evsB = [] \<or> (\<exists>es. (\<forall>e\<in>set es. is_call e) \<and> evsB = RunnerRun PhaseB # es)" by blast
  from evsB(2) have evsB_props: "filter (\<lambda>e. e = RunnerRun PhaseA) evsB = []"
    "\<forall>e\<in>set evsB. \<not> is_network e"
    by (auto simp: filter_empty_conv dest: is_call_not_network)
  from e evsB have new: "new_events w w' = RunnerRun PhaseA # es @ evsB"
    by (intro new_events_append) simp
  show ?thesis
  proof (cases "oc = SpecStatePassed")
    case False
    with run pa have "b = Some False" "trace w' = trace wA"
      by (auto simp: Run_def Let_def)
    with evsB have "evsB = []" by simp
    with run \<open>b = Some False\<close> new ra es False show ?thesis
      by auto
  next
    case True
    obtain rB wB where rb: "runner_run env PhaseB (set_outcome oc fl wA) = (rB, wB)"
      by (cases "runner_run env PhaseB (set_outcome oc fl wA)")
    from runner_run_trace [OF rb] obtain esB
      where eB: "trace wB = trace wA @ RunnerRun PhaseB # esB" by auto
    from run pa True rb have b: "b = Some (fst rB = SpecStatePassed)" "trace w' = trace wB"
      by (cases rB; auto simp: Run_def Let_def)+
    with evsB(1) eB have "evsB = RunnerRun PhaseB # esB" by simp
    then have "RunnerRun PhaseB \<in> set evsB" by simp
    with run b new ra es evsB_props True show ?thesis
      by auto
  qed
qed

text \<open>
  C4. With more than one node, \<open>runA\<close> returns what runner A reported and adds, after
  all events of runner A, exactly one POST; its body is the record with the node's
  payload at that moment and the state Passed when the outcome is Passed and Failed
  otherwise, so never Invalid, Pending or Disappeared. Whether the POST returns an error
  does not change the result.
\<close>

theorem producer_publishes_after_phaseA:
  assumes "1 < totalGinkgoNodes (the_node w)"
      and "runner_run env PhaseA w = ((oc, fl), wA)"
  shows "runA env w =
           ((oc, fl),
            emit (HttpPost (state_url (the_node w)) ''application/json''
                    (ToJSON env \<lparr>Data = data (the_node wA),
                                 State = (if oc = SpecStatePassed then RemoteStateStatePassed
                                          else RemoteStateStateFailed)\<rparr>)
                    (http_Post_err env (trace wA))) wA) \<and>
         (if oc = SpecStatePassed then RemoteStateStatePassed else RemoteStateStateFailed) \<notin>
           {RemoteStateStateInvalid, RemoteStateStatePending, RemoteStateStateDisappeared} \<and>
         (\<forall>e\<in>set (new_events w wA). \<not> is_post e) \<and>
         length (filter is_post (new_events w (snd (runA env w)))) = 1 \<and>
         (\<forall>p. fst (runA (env\<lparr>http_Post_err := p\<rparr>) w) = (oc, fl))"
proof -
  from runner_run_node [OF assms(2)] assms(1)
  have same: "1 < totalGinkgoNodes (the_node wA)" "state_url (the_node wA) = state_url (the_node w)"
    by (simp_all add: same_but_data_def state_url_def)
  from runner_run_trace [OF assms(2)] obtain es
    where e: "\<forall>e\<in>set es. is_call e" "trace wA = trace w @ RunnerRun PhaseA # es" by blast
  from e(1) have es: "filter is_post es = []" "\<forall>e\<in>set es. \<not> is_post e"
    by (auto simp: filter_empty_conv dest: is_call_not_network)
  from e have newA: "new_events w wA = RunnerRun PhaseA # es"
    by (intro new_events_append) simp
  from assms(2) same have 1: "runA env w =
           ((oc, fl),
            emit (HttpPost (state_url (the_node w)) ''application/json''
                    (ToJSON env \<lparr>Data = data (the_node wA),
                                 State = (if oc = SpecStatePassed then RemoteStateStatePassed
                                          else RemoteStateStateFailed)\<rparr>)
                    (http_Post_err env (trace wA))) wA)"
    by (simp add: runA_def Let_def)
  have 2: "\<forall>e\<in>set (new_events w wA). \<not> is_post e"
    using newA es by auto
  have "\<exists>p. new_events w (snd (runA env w)) = RunnerRun PhaseA # es @ [p] \<and> is_post p"
    unfolding 1 using e by (simp add: new_events_def)
  then have 3: "length (filter is_post (new_events w (snd (runA env w)))) = 1"
    using es by auto
  have 4: "fst (runA (env\<lparr>http_Post_err := p\<rparr>) w) = (oc, fl)" for p
    using assms(2) by (simp add: runA_def runner_run_post_irrelevant Let_def split: if_splits)
  have 5: "(if oc = SpecStatePassed then RemoteStateStatePassed else RemoteStateStateFailed) \<notin>
           {RemoteStateStateInvalid, RemoteStateStatePending, RemoteStateStateDisappeared}"
    by (simp add: RemoteStateState_defs)
  from 1 2 3 4 5 show ?thesis by blast
qed

subsection \<open>Claims about the wait of a follower\<close>

text \<open>
  C5. On a follower, a GET that returns an error or a status other than 200 ends the
  wait at once with outcome Failed and the message "Failed to fetch BeforeSuite state";
  an unreadable body with "Failed to read BeforeSuite state"; a body that does not decode
  with "Failed to decode BeforeSuite state". The failure carries the component type and
  location of runner A, \<open>Run\<close> returns false with that failure, and runner B is not run.
\<close>

theorem follower_transport_error_fails_wait:
  assumes "ginkgoNode (the_node w) \<noteq> 1"
      and "url = state_url (the_node w)"
      and "(http_Get env (trace w) url = None \<and>
              msg = ''Failed to fetch BeforeSuite state'' \<and> evs = [HttpGet url]) \<or>
           (\<exists>rsp. http_Get env (trace w) url = Some rsp \<and> StatusCode rsp \<noteq> 200 \<and>
              msg = ''Failed to fetch BeforeSuite state'' \<and> evs = [HttpGet url]) \<or>
           (\<exists>rsp. http_Get env (trace w) url = Some rsp \<and> StatusCode rsp = 200 \<and>
              Body rsp = None \<and>
              msg = ''Failed to read BeforeSuite state'' \<and> evs = [HttpGet url]) \<or>
           (\<exists>rsp body. http_Get env (trace w) url = Some rsp \<and> StatusCode rsp = 200 \<and>
              Body rsp = Some body \<and> json_Unmarshal env body = None \<and>
              msg = ''Failed to decode BeforeSuite state'' \<and> evs = [HttpGet url, BodyClose])"
  shows "waitForA env (Suc n) w =
           (Some (SpecStateFailed, waitForA_failure (the_node w) msg),
            w\<lparr>trace := trace w @ evs\<rparr>) \<and>
         Message (waitForA_failure (the_node w) msg) = msg \<and>
         ComponentType (waitForA_failure (the_node w) msg) = nodeType (runnerA (the_node w)) \<and>
         Location (waitForA_failure (the_node w) msg) = codeLocation (runnerA (the_node w)) \<and>
         (\<exists>w'. Run env (Suc n) w = (Some False, w') \<and>
            outcome (the_node w') = SpecStateFailed \<and>
            failure (the_node w') = waitForA_failure (the_node w) msg \<and>
            new_events w w' = evs \<and> RunnerRun PhaseB \<notin> set (new_events w w'))"
proof -
  from assms(2,3)
  have wait: "waitForA env (Suc n) w =
           (Some (SpecStateFailed, waitForA_failure (the_node w) msg),
            w\<lparr>trace := trace w @ evs\<rparr>)"
    by (auto simp: Let_def emit_def http_StatusOK_def)
  from assms(3) have noB: "RunnerRun PhaseB \<notin> set evs" by auto
  have fields: "Message (waitForA_failure (the_node w) msg) = msg"
    "ComponentType (waitForA_failure (the_node w) msg) = nodeType (runnerA (the_node w))"
    "Location (waitForA_failure (the_node w) msg) = codeLocation (runnerA (the_node w))"
    by (simp_all add: waitForA_failure_def)
  from Run_follower_failed [OF assms(1) wait] noB
  have "\<exists>w'. Run env (Suc n) w = (Some False, w') \<and>
            outcome (the_node w') = SpecStateFailed \<and>
            failure (the_node w') = waitForA_failure (the_node w) msg \<and>
            new_events w w' = evs \<and> RunnerRun PhaseB \<notin> set (new_events w w')"
    by (simp add: new_events_def)
  with wait fields show ?thesis by blast
qed

text \<open>
  C6. On a follower, a record with state Failed ends the wait with outcome Failed and the
  message "BeforeSuite on Node 1 failed"; a record with state Disappeared ends it with
  outcome Failed and a different message about node 1 disappearing. In both cases \<open>Run\<close>
  returns false and runner B is not run.
\<close>

theorem follower_reports_remote_failure:
  assumes "ginkgoNode (the_node w) \<noteq> 1"
      and "url = state_url (the_node w)"
      and "http_Get env (trace w) url = Some rsp"
      and "StatusCode rsp = 200"
      and "Body rsp = Some body"
      and "json_Unmarshal env body = Some r"
      and "(State r = RemoteStateStateFailed \<and> msg = ''BeforeSuite on Node 1 failed'') \<or>
           (State r = RemoteStateStateDisappeared \<and>
            msg = ''Node 1 dissappeared before completing BeforeSuite'')"
  shows "waitForA env (Suc n) w =
           (Some (SpecStateFailed, waitForA_failure (the_node w) msg),
            w\<lparr>trace := trace w @ [HttpGet url, BodyClose]\<rparr>) \<and>
         Message (waitForA_failure (the_node w) msg) = msg \<and>
         ''BeforeSuite on Node 1 failed'' \<noteq> ''Node 1 dissappeared before completing BeforeSuite'' \<and>
         (\<exists>w'. Run env (Suc n) w = (Some False, w') \<and>
            outcome (the_node w') = SpecStateFailed \<and>
            failure (the_node w') = waitForA_failure (the_node w) msg \<and>
            new_events w w' = [HttpGet url, BodyClose] \<and>
            RunnerRun PhaseB \<notin> set (new_events w w'))"
proof -
  from assms(2-7)
  have wait: "waitForA env (Suc n) w =
           (Some (SpecStateFailed, waitForA_failure (the_node w) msg),
            w\<lparr>trace := trace w @ [HttpGet url, BodyClose]\<rparr>)"
    by (auto simp: Let_def emit_def http_StatusOK_def RemoteStateState_defs)
  have fields: "Message (waitForA_failure (the_node w) msg) = msg"
    by (simp add: waitForA_failure_def)
  from Run_follower_failed [OF assms(1) wait]
  have "\<exists>w'. Run env (Suc n) w = (Some False, w') \<and>
            outcome (the_node w') = SpecStateFailed \<and>
            failure (the_node w') = waitForA_failure (the_node w) msg \<and>
            new_events w w' = [HttpGet url, BodyClose] \<and>
            RunnerRun PhaseB \<notin> set (new_events w w')"
    by (simp add: new_events_def)
  with wait fields show ?thesis by simp
qed

text \<open>
  C9. A decoded record whose state is none of Passed, Failed and Disappeared does not end
  the wait: the loop sleeps 50 milliseconds and goes on with the next GET, and a loop cut
  after this GET has returned nothing.
\<close>

theorem nonterminal_record_keeps_polling:
  assumes "http_Get env (trace w) (state_url (the_node w)) = Some rsp"
      and "StatusCode rsp = 200"
      and "Body rsp = Some body"
      and "json_Unmarshal env body = Some r"
      and "State r \<noteq> RemoteStateStatePassed"
      and "State r \<noteq> RemoteStateStateFailed"
      and "State r \<noteq> RemoteStateStateDisappeared"
  shows "waitForA env (Suc n) w =
           waitForA env n
             (emit (Sleep 50) (emit BodyClose (emit (HttpGet (state_url (the_node w))) w))) \<and>
         fst (waitForA env (Suc 0) w) = None"
  using assms by (simp add: Let_def http_StatusOK_def)

text \<open>
  For functions of the declared shapes the payload reaches the second function: a
  follower that reads a record with state Passed and data \<open>P\<close> stores \<open>P\<close>, the wait
  yields Passed with the empty failure, and runner B calls the second function with
  \<open>P\<close>; on node 1 the closure of \<open>wrapA\<close> stores the bytes that the first function
  returns, and when phase A passed runner B calls the second function with them.
\<close>

lemma payload_reaches_phaseB_for_declared_shapes:
  assumes "wrapA bodyA = Inr (rfunc (runnerA (the_node w)))"
      and "wrapB bodyB = Inr (rfunc (runnerB (the_node w)))"
      and "spec_producer_shape bodyA"
      and "spec_consumer_shape bodyB"
  shows "(ginkgoNode (the_node w) \<noteq> 1 \<and>
          http_Get env (trace w) (state_url (the_node w)) = Some rsp \<and>
          StatusCode rsp = 200 \<and> Body rsp = Some body \<and>
          json_Unmarshal env body = Some r \<and> State r = RemoteStateStatePassed \<longrightarrow>
            (\<exists>wA. waitForA env (Suc n) w = (Some (SpecStatePassed, SpecFailure_zero), wA) \<and>
                  data (the_node wA) = Data r) \<and>
            (\<exists>b w' d. Run env (Suc n) w = (Some b, w') \<and>
                  new_events w w' =
                    [HttpGet (state_url (the_node w)), BodyClose,
                     RunnerRun PhaseB, CallBodyB (Data r) d])) \<and>
         (ginkgoNode (the_node w) = 1 \<and>
          bodyA_returns env (trace w @ [RunnerRun PhaseA]) = Some out \<longrightarrow>
            (\<exists>rA wA d. runner_run env PhaseA w = (rA, wA) \<and> data (the_node wA) = out \<and>
                  new_events w wA = [RunnerRun PhaseA, CallBodyA d]) \<and>
            (fst (fst (runner_run env PhaseA w)) = SpecStatePassed \<longrightarrow>
               (\<exists>b w' dA ps dB. Run env n w = (Some b, w') \<and>
                  new_events w w' =
                    [RunnerRun PhaseA, CallBodyA dA] @ ps @ [RunnerRun PhaseB, CallBodyB out dB] \<and>
                  (\<forall>p\<in>set ps. is_post p))))"
proof (intro conjI impI)
  assume a: "ginkgoNode (the_node w) \<noteq> 1 \<and>
          http_Get env (trace w) (state_url (the_node w)) = Some rsp \<and>
          StatusCode rsp = 200 \<and> Body rsp = Some body \<and>
          json_Unmarshal env body = Some r \<and> State r = RemoteStateStatePassed"
  let ?wA = "set_data (Data r) (w\<lparr>trace := trace w @ [HttpGet (state_url (the_node w)), BodyClose]\<rparr>)"
  from a have wait: "waitForA env (Suc n) w = (Some (SpecStatePassed, SpecFailure_zero), ?wA)"
    using follower_adopts_payload [of env w rsp body r n] by blast
  then show "\<exists>wA. waitForA env (Suc n) w = (Some (SpecStatePassed, SpecFailure_zero), wA) \<and>
                  data (the_node wA) = Data r"
    by simp
  from a wait have "Run_phaseA env (Suc n) w = (Some (SpecStatePassed, SpecFailure_zero), ?wA)"
    by (simp add: Run_phaseA_def)
  from Run_after_passed_phaseA [OF this assms(4) assms(2)]
  show "\<exists>b w' d. Run env (Suc n) w = (Some b, w') \<and>
                  new_events w w' =
                    [HttpGet (state_url (the_node w)), BodyClose,
                     RunnerRun PhaseB, CallBodyB (Data r) d]"
    by (auto simp: new_events_def)
next
  assume a: "ginkgoNode (the_node w) = 1 \<and>
          bodyA_returns env (trace w @ [RunnerRun PhaseA]) = Some out"
  from assms(1) have "wrapA bodyA = Inr (rfunc (runner_of PhaseA (the_node w)))"
    by (simp add: runner_of_def)
  from runner_run_declared_producer [OF assms(3) this, of env out] a obtain d
    where ra: "runner_run env PhaseA w =
           (runner_reports env (trace w @ [RunnerRun PhaseA, CallBodyA d]),
            set_data out (w\<lparr>trace := trace w @ [RunnerRun PhaseA, CallBodyA d]\<rparr>))"
    by blast
  then show "\<exists>rA wA d. runner_run env PhaseA w = (rA, wA) \<and> data (the_node wA) = out \<and>
                  new_events w wA = [RunnerRun PhaseA, CallBodyA d]"
    by (auto simp: new_events_def)
  assume p: "fst (fst (runner_run env PhaseA w)) = SpecStatePassed"
  let ?wA = "set_data out (w\<lparr>trace := trace w @ [RunnerRun PhaseA, CallBodyA d]\<rparr>)"
  from p ra obtain fl
    where rep: "runner_reports env (trace w @ [RunnerRun PhaseA, CallBodyA d]) = (SpecStatePassed, fl)"
    by (cases "runner_reports env (trace w @ [RunnerRun PhaseA, CallBodyA d])") auto
  obtain rA wA' where runA: "runA env w = (rA, wA')" by (cases "runA env w")
  from runA ra rep have rA: "rA = (SpecStatePassed, fl)" "data (the_node wA') = out"
    by (auto simp: runA_def Let_def split: if_splits)
  from runA ra rep obtain ps
    where ps: "trace wA' = trace w @ [RunnerRun PhaseA, CallBodyA d] @ ps" "\<forall>p\<in>set ps. is_post p"
    by (auto simp: runA_def Let_def split: if_splits)
  from a runA rA have "Run_phaseA env n w = (Some (SpecStatePassed, fl), wA')"
    by (simp add: Run_phaseA_def)
  from Run_after_passed_phaseA [OF this assms(4) assms(2)] rA(2) ps
  show "\<exists>b w' dA ps dB. Run env n w = (Some b, w') \<and>
                  new_events w w' =
                    [RunnerRun PhaseA, CallBodyA dA] @ ps @ [RunnerRun PhaseB, CallBodyB out dB] \<and>
                  (\<forall>p\<in>set ps. is_post p)"
    by (auto simp: new_events_def)
qed


subsection \<open>Construction\<close>

text \<open>The accessors of a defined type are those of its underlying type.\<close>

lemma Kind_of_underlying: "Kind_of (underlying t) = Kind_of t"
  by (induction t rule: underlying.induct) auto

lemma NumIn_underlying: "NumIn (underlying t) = NumIn t"
  by (induction t rule: underlying.induct) auto

lemma NumOut_underlying: "NumOut (underlying t) = NumOut t"
  by (induction t rule: underlying.induct) auto

lemma In_underlying: "In (underlying t) i = In t i"
  by (induction t rule: underlying.induct) auto

lemma Out_underlying: "Out (underlying t) i = Out t i"
  by (induction t rule: underlying.induct) auto

lemma Kind_Func_underlying:
  "Kind_of t = reflect_Func \<Longrightarrow> \<exists>ins v outs. underlying t = FuncT ins v outs"
  by (induction t rule: underlying.induct) auto

lemma Elem_of_Chan: "Kind_of a = reflect_Chan \<Longrightarrow> \<exists>e. Elem a = Inr e"
  by (induction a rule: underlying.induct) auto

lemma Elem_of_Slice: "Kind_of a = reflect_Slice \<Longrightarrow> \<exists>e. Elem a = Inr e"
  by (induction a rule: underlying.induct) auto

text \<open>
  After the check of the kind, none of the accessors in the shape tests panics: each
  test yields a truth value.
\<close>

lemma some_bool_false [simp]: "\<exists>b. \<not> b" "Ex Not"
  by (auto intro: exI [of _ False])

lemma chan_of_interface_total:
  "\<exists>b. andalso (kind_is (Inr a) reflect_Chan) (kind_is (elem_of (Inr a)) reflect_Interface) = Inr b"
  using Elem_of_Chan [of a]
  by (auto simp: andalso_def kind_is_def elem_of_def)

lemma slice_of_uint8_total:
  "\<exists>b. andalso (kind_is (Inr a) reflect_Slice) (kind_is (elem_of (Inr a)) reflect_Uint8) = Inr b"
  using Elem_of_Slice [of a]
  by (auto simp: andalso_def kind_is_def elem_of_def)

lemma In_total:
  "i < length ins + (case v of None \<Rightarrow> 0 | Some e \<Rightarrow> 1) \<Longrightarrow> \<exists>a. In (FuncT ins v outs) i = Inr a"
  by (auto split: option.splits)

lemma takesNothing_total: "\<exists>b. takesNothing (FuncT ins v outs) = Inr b"
  by (simp add: takesNothing_def num_is_def)

lemma returnsNothing_total: "\<exists>b. returnsNothing (FuncT ins v outs) = Inr b"
  by (simp add: returnsNothing_def num_is_def)

lemma takesADoneChannel_total: "\<exists>b. takesADoneChannel (FuncT ins v outs) = Inr b"
proof (cases "length ins + (case v of None \<Rightarrow> 0 | Some e \<Rightarrow> 1) = 1")
  case True
  then obtain a where a: "In (FuncT ins v outs) 0 = Inr a"
    using In_total [of 0 ins v outs] by auto
  from True a chan_of_interface_total [of a] show ?thesis
    by (simp add: takesADoneChannel_def num_is_def andalso_def)
next
  case False
  then show ?thesis
    by (simp add: takesADoneChannel_def num_is_def andalso_def)
qed

lemma returnsBytes_total: "\<exists>b. returnsBytes (FuncT ins v outs) = Inr b"
proof (cases "length outs = 1")
  case True
  then obtain a where a: "Out (FuncT ins v outs) 0 = Inr a" by auto
  from True a slice_of_uint8_total [of a] show ?thesis
    by (simp add: returnsBytes_def num_is_def andalso_def)
next
  case False
  then show ?thesis
    by (simp add: returnsBytes_def num_is_def andalso_def)
qed

lemma takesBytesOnly_total: "\<exists>b. takesBytesOnly (FuncT ins v outs) = Inr b"
proof (cases "length ins + (case v of None \<Rightarrow> 0 | Some e \<Rightarrow> 1) = 1")
  case True
  then obtain a where a: "In (FuncT ins v outs) 0 = Inr a"
    using In_total [of 0 ins v outs] by auto
  from True a slice_of_uint8_total [of a] show ?thesis
    by (simp add: takesBytesOnly_def num_is_def andalso_def)
next
  case False
  then show ?thesis
    by (simp add: takesBytesOnly_def num_is_def andalso_def)
qed

lemma takesBytesAndDone_total: "\<exists>b. takesBytesAndDone (FuncT ins v outs) = Inr b"
proof (cases "length ins + (case v of None \<Rightarrow> 0 | Some e \<Rightarrow> 1) = 2")
  case True
  then obtain a c where a: "In (FuncT ins v outs) 0 = Inr a" "In (FuncT ins v outs) 1 = Inr c"
    using In_total [of 0 ins v outs] In_total [of 1 ins v outs] by auto
  obtain b1 where b1: "andalso (kind_is (Inr c) reflect_Chan)
      (kind_is (elem_of (Inr c)) reflect_Interface) = Inr b1"
    using chan_of_interface_total [of c] by blast
  from Elem_of_Slice [of a] have "\<exists>b. andalso (kind_is (Inr a) reflect_Slice)
      (andalso (kind_is (elem_of (Inr a)) reflect_Uint8) (Inr b1)) = Inr b"
    by (auto simp: andalso_def kind_is_def elem_of_def)
  with True a b1 show ?thesis
    by (simp add: takesBytesAndDone_def num_is_def andalso_def)
next
  case False
  then show ?thesis
    by (simp add: takesBytesAndDone_def num_is_def andalso_def)
qed

lemma shape_tests_underlying:
  "takesNothing t = takesNothing (underlying t)"
  "takesADoneChannel t = takesADoneChannel (underlying t)"
  "returnsBytes t = returnsBytes (underlying t)"
  "returnsNothing t = returnsNothing (underlying t)"
  "takesBytesOnly t = takesBytesOnly (underlying t)"
  "takesBytesAndDone t = takesBytesAndDone (underlying t)"
  by (simp_all add: takesNothing_def takesADoneChannel_def returnsBytes_def returnsNothing_def
        takesBytesOnly_def takesBytesAndDone_def NumIn_underlying NumOut_underlying
        In_underlying Out_underlying)

text \<open>
  So for an argument that is not nil, \<open>wrapA\<close> and \<open>wrapB\<close> either return a closure or
  panic with a message that names the argument.
\<close>

lemma wrapA_Dyn_panic: "wrapA (Dyn t) = Inl p \<Longrightarrow> names_first_argument p"
proof (cases "Kind_of t = reflect_Func")
  case False
  assume "wrapA (Dyn t) = Inl p"
  with False show ?thesis by (simp add: wrapA_def names_first_argument_def)
next
  case True
  assume a: "wrapA (Dyn t) = Inl p"
  from Kind_Func_underlying [OF True] obtain ins v outs
    where u: "underlying t = FuncT ins v outs" by blast
  obtain tn td rb where "takesNothing t = Inr tn" "takesADoneChannel t = Inr td"
    "returnsBytes t = Inr rb"
    using takesNothing_total [of ins v outs] takesADoneChannel_total [of ins v outs]
      returnsBytes_total [of ins v outs] u
    by (auto simp: shape_tests_underlying [of t])
  with a True show ?thesis
    by (auto simp: wrapA_def names_first_argument_def split: if_splits)
qed

lemma wrapB_Dyn_panic: "wrapB (Dyn t) = Inl p \<Longrightarrow> names_second_argument p"
proof (cases "Kind_of t = reflect_Func")
  case False
  assume "wrapB (Dyn t) = Inl p"
  with False show ?thesis by (simp add: wrapB_def names_second_argument_def)
next
  case True
  assume a: "wrapB (Dyn t) = Inl p"
  from Kind_Func_underlying [OF True] obtain ins v outs
    where u: "underlying t = FuncT ins v outs" by blast
  obtain rn tb tbd where "returnsNothing t = Inr rn" "takesBytesOnly t = Inr tb"
    "takesBytesAndDone t = Inr tbd"
    using returnsNothing_total [of ins v outs] takesBytesOnly_total [of ins v outs]
      takesBytesAndDone_total [of ins v outs] u
    by (auto simp: shape_tests_underlying [of t])
  with a True show ?thesis
    by (auto simp: wrapB_def names_second_argument_def split: if_splits)
qed

lemma wrapA_nil: "wrapA NilInterface = Inl nil_dereference"
  by (simp add: wrapA_def)

lemma wrapB_nil: "wrapB NilInterface = Inl nil_dereference"
  by (simp add: wrapB_def)

lemma wrapA_accepts_declared: "spec_producer_shape a \<Longrightarrow> \<exists>f. wrapA a = Inr f"
  by (auto simp: spec_producer_shape_def wrapA_declared)

lemma wrapB_accepts_declared: "spec_consumer_shape b \<Longrightarrow> \<exists>f. wrapB b = Inr f"
  by (auto simp: spec_consumer_shape_def wrapB_declared)

text \<open>Construction for arguments that are not nil.\<close>

lemma New_valid_shapes:
  assumes "spec_producer_shape a" and "spec_consumer_shape b"
  shows "\<exists>nd. NewCompoundBeforeSuiteNode a b loc tmo g t host = Inr nd \<and>
           ginkgoNode nd = g \<and> totalGinkgoNodes nd = t \<and> syncHost nd = host \<and>
           wrapA a = Inr (rfunc (runnerA nd)) \<and> wrapB b = Inr (rfunc (runnerB nd)) \<and>
           data nd = [] \<and> outcome nd = SpecStateInvalid"
proof -
  from assms obtain fA fB where "wrapA a = Inr fA" "wrapB b = Inr fB"
    using wrapA_accepts_declared wrapB_accepts_declared by blast
  then show ?thesis
    by (simp add: NewCompoundBeforeSuiteNode_def newRunner_def)
qed

lemma New_Dyn_panic_names_argument:
  assumes "NewCompoundBeforeSuiteNode (Dyn ta) (Dyn tb) loc tmo g t host = Inl p"
  shows "names_first_argument p \<or> names_second_argument p"
  using assms wrapA_Dyn_panic [of ta p] wrapB_Dyn_panic [of tb p]
  by (auto simp: NewCompoundBeforeSuiteNode_def split: sum.splits)

text \<open>
  The shape tests look at kinds only, so the constructor also accepts functions that
  are not of a declared shape, such as \<^verbatim>\<open>func() MyBytes\<close> and
  \<^verbatim>\<open>func([]byte, chan interface{})\<close>.
\<close>

lemma New_accepts_other_shapes:
  "\<not> spec_producer_shape named_result_bodyA"
  "NewCompoundBeforeSuiteNode named_result_bodyA example_bodyB example_location 1000 g t
     ''http://127.0.0.1:7788'' = Inr (named_result_node g t)"
  "\<not> spec_consumer_shape bidirectional_chan_bodyB"
  "NewCompoundBeforeSuiteNode example_bodyA bidirectional_chan_bodyB example_location 1000 g t
     ''http://127.0.0.1:7788'' = Inr (bidirectional_chan_node g t)"
  by (simp_all add: spec_producer_shape_def spec_consumer_shape_def named_result_bodyA_def
        bidirectional_chan_bodyB_def example_bodyA_def example_bodyB_def bytesT_def doneT_def
        NewCompoundBeforeSuiteNode_def wrapA_def wrapB_def shape_defs named_result_node_def
        bidirectional_chan_node_def example_node_def newRunner_def)

text \<open>
  C8. Construction with an argument that does not have an accepted shape is to panic
  with a message that names the argument. For the nil interface as first argument, and as
  second argument after an accepted first one, the panic is the run-time error of the
  nil dereference, which names neither.
\<close>

theorem New_nil_argument_panic_names_no_argument:
  "NewCompoundBeforeSuiteNode NilInterface b loc tmo g t host =
     Inl (RuntimeError ''invalid memory address or nil pointer dereference'') \<and>
   \<not> names_first_argument (RuntimeError ''invalid memory address or nil pointer dereference'') \<and>
   NewCompoundBeforeSuiteNode example_bodyA NilInterface loc tmo g t host =
     Inl (RuntimeError ''invalid memory address or nil pointer dereference'') \<and>
   \<not> names_second_argument (RuntimeError ''invalid memory address or nil pointer dereference'')"
  by (simp add: NewCompoundBeforeSuiteNode_def wrapA_nil wrapB_nil wrapA_def shape_defs
        example_bodyA_def nil_dereference_def names_first_argument_def
        names_second_argument_def)


subsection \<open>Unfolding the model at concrete inputs\<close>

lemmas example_defs =
  example_env_def example_world_def example_node_def example_report_def example_failure_def
  example_location_def example_unmarshal_def example_marshal_def ok_response_def
  example_bodyA_def example_bodyB_def

lemmas model_defs =
  Run_def Run_phaseA_def runA_def runner_run_def runner_of_def call_bodyA_def call_bodyB_def
  emit_def set_data_def set_outcome_def set_runTime_def newRunner_def state_url_def
  waitForA_failure_def ToJSON_def http_StatusOK_def Let_def new_events_def Passed_def
  SpecFailure_zero_def CodeLocation_zero_def assignable_def directlyAssignable_def
  specialChannelAssignability_def implements_without_methods_def bytesT_def doneT_def

subsection \<open>Accepted functions that the closures cannot call\<close>

text \<open>
  C7. The payload is to reach the second function on every node: a follower stores
  the data of a Passed record and the closure of \<open>wrapB\<close> calls the second function with
  it; on node 1 the closure of \<open>wrapA\<close> stores the bytes that the first function
  returns. For \<^verbatim>\<open>func([]byte, chan interface{})\<close> as second function the constructor
  returns a node, the follower stores the bytes 1, 2, 3 of the record, and the closure
  panics in \<^verbatim>\<open>Call\<close>: the second function is never called and \<open>Run\<close> returns false.
  For \<^verbatim>\<open>func() MyBytes\<close> as first function the constructor returns a node, the first
  function is called and returns 1, 2, 3, and the closure panics in the type assertion:
  the payload slot stays empty and \<open>Run\<close> returns false.
\<close>

theorem accepted_functions_lose_the_payload:
  "NewCompoundBeforeSuiteNode example_bodyA bidirectional_chan_bodyB example_location 1000 2 3
     ''http://127.0.0.1:7788'' = Inr (bidirectional_chan_node 2 3) \<and>
   Run (example_env SpecStatePassed SpecStatePanicked [ok_response ''passed 1 2 3'']) (Suc 0)
       \<lparr>the_node = bidirectional_chan_node 2 3, trace = []\<rparr> =
     (Some False,
      \<lparr>the_node = (bidirectional_chan_node 2 3)
         \<lparr>data := [1, 2, 3], outcome := SpecStatePanicked, failure := example_failure,
          runTime := 3\<rparr>,
       trace = [HttpGet ''http://127.0.0.1:7788/BeforeSuiteState'', BodyClose,
                RunnerRun PhaseB]\<rparr>) \<and>
   NewCompoundBeforeSuiteNode named_result_bodyA example_bodyB example_location 1000 1 3
     ''http://127.0.0.1:7788'' = Inr (named_result_node 1 3) \<and>
   bodyA_returns
     ((example_env SpecStatePassed SpecStatePassed [])
        \<lparr>runner_reports := \<lambda>tr. example_report SpecStatePanicked\<rparr>)
     [RunnerRun PhaseA] = Some [1, 2, 3] \<and>
   Run ((example_env SpecStatePassed SpecStatePassed [])
          \<lparr>runner_reports := \<lambda>tr. example_report SpecStatePanicked\<rparr>) 0
       \<lparr>the_node = named_result_node 1 3, trace = []\<rparr> =
     (Some False,
      \<lparr>the_node = (named_result_node 1 3)
         \<lparr>data := [], outcome := SpecStatePanicked, failure := example_failure,
          runTime := 3\<rparr>,
       trace = [RunnerRun PhaseA, CallBodyA False,
                HttpPost ''http://127.0.0.1:7788/BeforeSuiteState'' ''application/json''
                  ''failed'' False]\<rparr>)"
proof -
  have 1: "NewCompoundBeforeSuiteNode example_bodyA bidirectional_chan_bodyB example_location
       1000 2 3 ''http://127.0.0.1:7788'' = Inr (bidirectional_chan_node 2 3)"
    by (rule New_accepts_other_shapes)
  have 2: "Run (example_env SpecStatePassed SpecStatePanicked [ok_response ''passed 1 2 3''])
       (Suc 0) \<lparr>the_node = bidirectional_chan_node 2 3, trace = []\<rparr> =
     (Some False,
      \<lparr>the_node = (bidirectional_chan_node 2 3)
         \<lparr>data := [1, 2, 3], outcome := SpecStatePanicked, failure := example_failure,
          runTime := 3\<rparr>,
       trace = [HttpGet ''http://127.0.0.1:7788/BeforeSuiteState'', BodyClose,
                RunnerRun PhaseB]\<rparr>)"
    by (simp add: example_defs model_defs RemoteStateState_defs bidirectional_chan_node_def)
  have 3: "NewCompoundBeforeSuiteNode named_result_bodyA example_bodyB example_location 1000 1 3
     ''http://127.0.0.1:7788'' = Inr (named_result_node 1 3)"
    by (rule New_accepts_other_shapes)
  have 4: "bodyA_returns
     ((example_env SpecStatePassed SpecStatePassed [])
        \<lparr>runner_reports := \<lambda>tr. example_report SpecStatePanicked\<rparr>)
     [RunnerRun PhaseA] = Some [1, 2, 3]"
    by (simp add: example_defs)
  have 5: "Run ((example_env SpecStatePassed SpecStatePassed [])
          \<lparr>runner_reports := \<lambda>tr. example_report SpecStatePanicked\<rparr>) 0
       \<lparr>the_node = named_result_node 1 3, trace = []\<rparr> =
     (Some False,
      \<lparr>the_node = (named_result_node 1 3)
         \<lparr>data := [], outcome := SpecStatePanicked, failure := example_failure,
          runTime := 3\<rparr>,
       trace = [RunnerRun PhaseA, CallBodyA False,
                HttpPost ''http://127.0.0.1:7788/BeforeSuiteState'' ''application/json''
                  ''failed'' False]\<rparr>)"
    by (simp add: example_defs model_defs RemoteStateState_defs named_result_node_def)
  from 1 2 3 4 5 show ?thesis by simp
qed

subsection \<open>The claims at concrete inputs\<close>

theorem Run_stops_when_phaseA_not_passed_witness:
  "Run_phaseA (example_env SpecStateFailed SpecStatePassed []) 0 (example_world 1 3) =
     (Some (SpecStateFailed, example_failure),
      \<lparr>the_node = example_node 1 3,
       trace = [RunnerRun PhaseA, CallBodyA False,
                HttpPost ''http://127.0.0.1:7788/BeforeSuiteState'' ''application/json''
                  ''failed'' False]\<rparr>) \<and>
   SpecStateFailed \<noteq> SpecStatePassed \<and>
   (\<exists>w'. Run (example_env SpecStateFailed SpecStatePassed []) 0 (example_world 1 3) =
            (Some False, w') \<and>
          outcome (the_node w') = SpecStateFailed \<and> failure (the_node w') = example_failure \<and>
          trace w' = [RunnerRun PhaseA, CallBodyA False,
                HttpPost ''http://127.0.0.1:7788/BeforeSuiteState'' ''application/json''
                  ''failed'' False] \<and>
          RunnerRun PhaseB \<notin> set (new_events (example_world 1 3) w'))"
proof -
  have h: "Run_phaseA (example_env SpecStateFailed SpecStatePassed []) 0 (example_world 1 3) =
     (Some (SpecStateFailed, example_failure),
      \<lparr>the_node = example_node 1 3,
       trace = [RunnerRun PhaseA, CallBodyA False,
                HttpPost ''http://127.0.0.1:7788/BeforeSuiteState'' ''application/json''
                  ''failed'' False]\<rparr>)"
    by (simp add: example_defs model_defs RemoteStateState_defs)
  have d: "SpecStateFailed \<noteq> SpecStatePassed" by simp
  from Run_stops_when_phaseA_not_passed [OF h d] h show ?thesis by simp
qed

theorem Run_result_is_Passed_witness:
  "Run (example_env SpecStatePassed SpecStatePassed [ok_response ''pending'', ok_response ''passed 1 2 3''])
       2 (example_world 2 3) =
     (Some True,
      \<lparr>the_node = (example_node 2 3)\<lparr>data := [1, 2, 3], outcome := SpecStatePassed, runTime := 7\<rparr>,
       trace = [HttpGet ''http://127.0.0.1:7788/BeforeSuiteState'', BodyClose, Sleep 50,
                HttpGet ''http://127.0.0.1:7788/BeforeSuiteState'', BodyClose,
                RunnerRun PhaseB, CallBodyB [1, 2, 3] False]\<rparr>) \<and>
   Passed ((example_node 2 3)\<lparr>data := [1, 2, 3], outcome := SpecStatePassed, runTime := 7\<rparr>)"
proof -
  have h: "Run (example_env SpecStatePassed SpecStatePassed [ok_response ''pending'', ok_response ''passed 1 2 3''])
       2 (example_world 2 3) =
     (Some True,
      \<lparr>the_node = (example_node 2 3)\<lparr>data := [1, 2, 3], outcome := SpecStatePassed, runTime := 7\<rparr>,
       trace = [HttpGet ''http://127.0.0.1:7788/BeforeSuiteState'', BodyClose, Sleep 50,
                HttpGet ''http://127.0.0.1:7788/BeforeSuiteState'', BodyClose,
                RunnerRun PhaseB, CallBodyB [1, 2, 3] False]\<rparr>)"
    by (simp add: example_defs model_defs RemoteStateState_defs numeral_2_eq_2)
  from Run_result_is_Passed [OF h] h show ?thesis by simp
qed

theorem only_node_1_runs_producer_and_posts_witness:
  "Run (example_env SpecStatePassed SpecStatePassed [ok_response ''pending'']) (Suc 0)
       (example_world 2 3) =
     (None,
      \<lparr>the_node = example_node 2 3,
       trace = [HttpGet ''http://127.0.0.1:7788/BeforeSuiteState'', BodyClose, Sleep 50]\<rparr>) \<and>
   ginkgoNode (the_node (example_world 2 3)) \<noteq> 1 \<and>
   RunnerRun PhaseA \<notin> set [HttpGet ''http://127.0.0.1:7788/BeforeSuiteState'', BodyClose, Sleep 50] \<and>
   filter is_post [HttpGet ''http://127.0.0.1:7788/BeforeSuiteState'', BodyClose, Sleep 50] = [] \<and>
   Run (example_env SpecStatePassed SpecStateFailed []) 0 (example_world 1 3) =
     (Some False,
      \<lparr>the_node = (example_node 1 3)
         \<lparr>data := [1, 2, 3], outcome := SpecStateFailed, failure := example_failure,
          runTime := 5\<rparr>,
       trace = [RunnerRun PhaseA, CallBodyA False,
                HttpPost ''http://127.0.0.1:7788/BeforeSuiteState'' ''application/json''
                  ''passed 1 2 3'' False,
                RunnerRun PhaseB, CallBodyB [1, 2, 3] False]\<rparr>) \<and>
   ginkgoNode (the_node (example_world 1 3)) = 1 \<and>
   length (filter (\<lambda>e. e = RunnerRun PhaseA)
     (new_events (example_world 1 3)
        (snd (Run (example_env SpecStatePassed SpecStateFailed []) 0 (example_world 1 3))))) = 1 \<and>
   filter is_get
     (new_events (example_world 1 3)
        (snd (Run (example_env SpecStatePassed SpecStateFailed []) 0 (example_world 1 3)))) = []"
proof -
  have h1: "Run (example_env SpecStatePassed SpecStatePassed [ok_response ''pending'']) (Suc 0)
       (example_world 2 3) =
     (None,
      \<lparr>the_node = example_node 2 3,
       trace = [HttpGet ''http://127.0.0.1:7788/BeforeSuiteState'', BodyClose, Sleep 50]\<rparr>)"
    by (simp add: example_defs model_defs RemoteStateState_defs)
  have h2: "Run (example_env SpecStatePassed SpecStateFailed []) 0 (example_world 1 3) =
     (Some False,
      \<lparr>the_node = (example_node 1 3)
         \<lparr>data := [1, 2, 3], outcome := SpecStateFailed, failure := example_failure,
          runTime := 5\<rparr>,
       trace = [RunnerRun PhaseA, CallBodyA False,
                HttpPost ''http://127.0.0.1:7788/BeforeSuiteState'' ''application/json''
                  ''passed 1 2 3'' False,
                RunnerRun PhaseB, CallBodyB [1, 2, 3] False]\<rparr>)"
    by (simp add: example_defs model_defs RemoteStateState_defs)
  have g: "ginkgoNode (the_node (example_world 2 3)) \<noteq> 1"
    "ginkgoNode (the_node (example_world 1 3)) = 1"
    by (simp_all add: example_defs)
  from only_node_1_runs_producer_and_posts [OF h1] only_node_1_runs_producer_and_posts [OF h2]
    h1 h2 g
  show ?thesis by (simp add: new_events_def example_world_def filter_empty_conv)
qed

theorem single_node_no_network_witness:
  "totalGinkgoNodes (the_node (example_world 1 1)) = 1 \<and>
   1 \<le> ginkgoNode (the_node (example_world 1 1)) \<and>
   ginkgoNode (the_node (example_world 1 1)) \<le> totalGinkgoNodes (the_node (example_world 1 1)) \<and>
   (\<exists>b w'. Run (example_env SpecStatePassed SpecStatePassed []) 0 (example_world 1 1) = (Some b, w') \<and>
      (\<forall>e\<in>set (new_events (example_world 1 1) w'). \<not> is_network e) \<and>
      length (filter (\<lambda>e. e = RunnerRun PhaseA) (new_events (example_world 1 1) w')) = 1 \<and>
      RunnerRun PhaseB \<in> set (new_events (example_world 1 1) w'))"
proof -
  have h: "totalGinkgoNodes (the_node (example_world 1 1)) = 1"
    "1 \<le> ginkgoNode (the_node (example_world 1 1))"
    "ginkgoNode (the_node (example_world 1 1)) \<le> totalGinkgoNodes (the_node (example_world 1 1))"
    by (simp_all add: example_defs)
  have p: "fst (fst (runner_run (example_env SpecStatePassed SpecStatePassed []) PhaseA
                      (example_world 1 1))) = SpecStatePassed"
    by (simp add: example_defs model_defs)
  from single_node_no_network [OF h, of "example_env SpecStatePassed SpecStatePassed []" 0] p h
  show ?thesis by simp
qed

theorem producer_publishes_after_phaseA_witness:
  "1 < totalGinkgoNodes (the_node (example_world 1 3)) \<and>
   runner_run (example_env SpecStatePassed SpecStatePassed []) PhaseA (example_world 1 3) =
     ((SpecStatePassed, SpecFailure_zero),
      \<lparr>the_node = (example_node 1 3)\<lparr>data := [1, 2, 3]\<rparr>,
       trace = [RunnerRun PhaseA, CallBodyA False]\<rparr>) \<and>
   runA (example_env SpecStatePassed SpecStatePassed []) (example_world 1 3) =
     ((SpecStatePassed, SpecFailure_zero),
      \<lparr>the_node = (example_node 1 3)\<lparr>data := [1, 2, 3]\<rparr>,
       trace = [RunnerRun PhaseA, CallBodyA False,
                HttpPost ''http://127.0.0.1:7788/BeforeSuiteState'' ''application/json''
                  ''passed 1 2 3'' False]\<rparr>) \<and>
   fst (runA ((example_env SpecStatePassed SpecStatePassed [])\<lparr>http_Post_err := \<lambda>tr. True\<rparr>)
          (example_world 1 3)) = (SpecStatePassed, SpecFailure_zero)"
proof -
  have h1: "1 < totalGinkgoNodes (the_node (example_world 1 3))"
    by (simp add: example_defs)
  have h2: "runner_run (example_env SpecStatePassed SpecStatePassed []) PhaseA (example_world 1 3) =
     ((SpecStatePassed, SpecFailure_zero),
      \<lparr>the_node = (example_node 1 3)\<lparr>data := [1, 2, 3]\<rparr>,
       trace = [RunnerRun PhaseA, CallBodyA False]\<rparr>)"
    by (simp add: example_defs model_defs)
  have m: "ToJSON (example_env SpecStatePassed SpecStatePassed [])
             \<lparr>Data = [1, 2, 3], State = RemoteStateStatePassed\<rparr> = ''passed 1 2 3''"
    by (simp add: example_defs ToJSON_def RemoteStateState_defs)
  from producer_publishes_after_phaseA [OF h1 h2] h1 h2 m
  show ?thesis
    by (simp add: emit_def state_url_def example_world_def example_node_def example_env_def)
qed

theorem follower_transport_error_fails_wait_witness:
  "ginkgoNode (the_node (example_world 2 3)) \<noteq> 1 \<and>
   http_Get (example_env SpecStatePassed SpecStatePassed []) (trace (example_world 2 3))
     ''http://127.0.0.1:7788/BeforeSuiteState'' = None \<and>
   Run (example_env SpecStatePassed SpecStatePassed []) (Suc 0) (example_world 2 3) =
     (Some False,
      \<lparr>the_node = (example_node 2 3)
         \<lparr>outcome := SpecStateFailed,
          failure := waitForA_failure (example_node 2 3) ''Failed to fetch BeforeSuite state'',
          runTime := 1\<rparr>,
       trace = [HttpGet ''http://127.0.0.1:7788/BeforeSuiteState'']\<rparr>) \<and>
   Run (example_env SpecStatePassed SpecStatePassed
          [Some \<lparr>StatusCode = 503, Body = Some ''passed 1 2 3''\<rparr>]) (Suc 0) (example_world 2 3) =
     (Some False,
      \<lparr>the_node = (example_node 2 3)
         \<lparr>outcome := SpecStateFailed,
          failure := waitForA_failure (example_node 2 3) ''Failed to fetch BeforeSuite state'',
          runTime := 1\<rparr>,
       trace = [HttpGet ''http://127.0.0.1:7788/BeforeSuiteState'']\<rparr>) \<and>
   Run (example_env SpecStatePassed SpecStatePassed
          [Some \<lparr>StatusCode = 200, Body = None\<rparr>]) (Suc 0) (example_world 2 3) =
     (Some False,
      \<lparr>the_node = (example_node 2 3)
         \<lparr>outcome := SpecStateFailed,
          failure := waitForA_failure (example_node 2 3) ''Failed to read BeforeSuite state'',
          runTime := 1\<rparr>,
       trace = [HttpGet ''http://127.0.0.1:7788/BeforeSuiteState'']\<rparr>) \<and>
   Run (example_env SpecStatePassed SpecStatePassed [ok_response ''garbage'']) (Suc 0)
       (example_world 2 3) =
     (Some False,
      \<lparr>the_node = (example_node 2 3)
         \<lparr>outcome := SpecStateFailed,
          failure := waitForA_failure (example_node 2 3) ''Failed to decode BeforeSuite state'',
          runTime := 2\<rparr>,
       trace = [HttpGet ''http://127.0.0.1:7788/BeforeSuiteState'', BodyClose]\<rparr>)"
proof -
  let ?url = "''http://127.0.0.1:7788/BeforeSuiteState''"
  let ?W = "example_world 2 3"
  have f: "ginkgoNode (the_node ?W) \<noteq> 1" and u: "?url = state_url (the_node ?W)"
    by (simp_all add: example_defs state_url_def)
  have a: "(http_Get (example_env SpecStatePassed SpecStatePassed []) (trace ?W) ?url = None \<and>
              ''Failed to fetch BeforeSuite state'' = ''Failed to fetch BeforeSuite state'' \<and>
              [HttpGet ?url] = [HttpGet ?url]) \<or>
           (\<exists>rsp. http_Get (example_env SpecStatePassed SpecStatePassed []) (trace ?W) ?url = Some rsp \<and>
              StatusCode rsp \<noteq> 200 \<and>
              ''Failed to fetch BeforeSuite state'' = ''Failed to fetch BeforeSuite state'' \<and>
              [HttpGet ?url] = [HttpGet ?url]) \<or>
           (\<exists>rsp. http_Get (example_env SpecStatePassed SpecStatePassed []) (trace ?W) ?url = Some rsp \<and>
              StatusCode rsp = 200 \<and> Body rsp = None \<and>
              ''Failed to fetch BeforeSuite state'' = ''Failed to read BeforeSuite state'' \<and>
              [HttpGet ?url] = [HttpGet ?url]) \<or>
           (\<exists>rsp body. http_Get (example_env SpecStatePassed SpecStatePassed []) (trace ?W) ?url = Some rsp \<and>
              StatusCode rsp = 200 \<and> Body rsp = Some body \<and>
              json_Unmarshal (example_env SpecStatePassed SpecStatePassed []) body = None \<and>
              ''Failed to fetch BeforeSuite state'' = ''Failed to decode BeforeSuite state'' \<and>
              [HttpGet ?url] = [HttpGet ?url, BodyClose])"
    by (simp add: example_defs)
  have b: "(http_Get (example_env SpecStatePassed SpecStatePassed
              [Some \<lparr>StatusCode = 503, Body = Some ''passed 1 2 3''\<rparr>]) (trace ?W) ?url = None \<and>
              ''Failed to fetch BeforeSuite state'' = ''Failed to fetch BeforeSuite state'' \<and>
              [HttpGet ?url] = [HttpGet ?url]) \<or>
           (\<exists>rsp. http_Get (example_env SpecStatePassed SpecStatePassed
              [Some \<lparr>StatusCode = 503, Body = Some ''passed 1 2 3''\<rparr>]) (trace ?W) ?url = Some rsp \<and>
              StatusCode rsp \<noteq> 200 \<and>
              ''Failed to fetch BeforeSuite state'' = ''Failed to fetch BeforeSuite state'' \<and>
              [HttpGet ?url] = [HttpGet ?url]) \<or>
           (\<exists>rsp. http_Get (example_env SpecStatePassed SpecStatePassed
              [Some \<lparr>StatusCode = 503, Body = Some ''passed 1 2 3''\<rparr>]) (trace ?W) ?url = Some rsp \<and>
              StatusCode rsp = 200 \<and> Body rsp = None \<and>
              ''Failed to fetch BeforeSuite state'' = ''Failed to read BeforeSuite state'' \<and>
              [HttpGet ?url] = [HttpGet ?url]) \<or>
           (\<exists>rsp body. http_Get (example_env SpecStatePassed SpecStatePassed
              [Some \<lparr>StatusCode = 503, Body = Some ''passed 1 2 3''\<rparr>]) (trace ?W) ?url = Some rsp \<and>
              StatusCode rsp = 200 \<and> Body rsp = Some body \<and>
              json_Unmarshal (example_env SpecStatePassed SpecStatePassed
              [Some \<lparr>StatusCode = 503, Body = Some ''passed 1 2 3''\<rparr>]) body = None \<and>
              ''Failed to fetch BeforeSuite state'' = ''Failed to decode BeforeSuite state'' \<and>
              [HttpGet ?url] = [HttpGet ?url, BodyClose])"
    by (simp add: example_defs)
  have c: "(http_Get (example_env SpecStatePassed SpecStatePassed
              [Some \<lparr>StatusCode = 200, Body = None\<rparr>]) (trace ?W) ?url = None \<and>
              ''Failed to read BeforeSuite state'' = ''Failed to fetch BeforeSuite state'' \<and>
              [HttpGet ?url] = [HttpGet ?url]) \<or>
           (\<exists>rsp. http_Get (example_env SpecStatePassed SpecStatePassed
              [Some \<lparr>StatusCode = 200, Body = None\<rparr>]) (trace ?W) ?url = Some rsp \<and>
              StatusCode rsp \<noteq> 200 \<and>
              ''Failed to read BeforeSuite state'' = ''Failed to fetch BeforeSuite state'' \<and>
              [HttpGet ?url] = [HttpGet ?url]) \<or>
           (\<exists>rsp. http_Get (example_env SpecStatePassed SpecStatePassed
              [Some \<lparr>StatusCode = 200, Body = None\<rparr>]) (trace ?W) ?url = Some rsp \<and>
              StatusCode rsp = 200 \<and> Body rsp = None \<and>
              ''Failed to read BeforeSuite state'' = ''Failed to read BeforeSuite state'' \<and>
              [HttpGet ?url] = [HttpGet ?url]) \<or>
           (\<exists>rsp body. http_Get (example_env SpecStatePassed SpecStatePassed
              [Some \<lparr>StatusCode = 200, Body = None\<rparr>]) (trace ?W) ?url = Some rsp \<and>
              StatusCode rsp = 200 \<and> Body rsp = Some body \<and>
              json_Unmarshal (example_env SpecStatePassed SpecStatePassed
              [Some \<lparr>StatusCode = 200, Body = None\<rparr>]) body = None \<and>
              ''Failed to read BeforeSuite state'' = ''Failed to decode BeforeSuite state'' \<and>
              [HttpGet ?url] = [HttpGet ?url, BodyClose])"
    by (simp add: example_defs)
  have d: "(http_Get (example_env SpecStatePassed SpecStatePassed [ok_response ''garbage''])
              (trace ?W) ?url = None \<and>
              ''Failed to decode BeforeSuite state'' = ''Failed to fetch BeforeSuite state'' \<and>
              [HttpGet ?url, BodyClose] = [HttpGet ?url]) \<or>
           (\<exists>rsp. http_Get (example_env SpecStatePassed SpecStatePassed [ok_response ''garbage''])
              (trace ?W) ?url = Some rsp \<and>
              StatusCode rsp \<noteq> 200 \<and>
              ''Failed to decode BeforeSuite state'' = ''Failed to fetch BeforeSuite state'' \<and>
              [HttpGet ?url, BodyClose] = [HttpGet ?url]) \<or>
           (\<exists>rsp. http_Get (example_env SpecStatePassed SpecStatePassed [ok_response ''garbage''])
              (trace ?W) ?url = Some rsp \<and>
              StatusCode rsp = 200 \<and> Body rsp = None \<and>
              ''Failed to decode BeforeSuite state'' = ''Failed to read BeforeSuite state'' \<and>
              [HttpGet ?url, BodyClose] = [HttpGet ?url]) \<or>
           (\<exists>rsp body. http_Get (example_env SpecStatePassed SpecStatePassed [ok_response ''garbage''])
              (trace ?W) ?url = Some rsp \<and>
              StatusCode rsp = 200 \<and> Body rsp = Some body \<and>
              json_Unmarshal (example_env SpecStatePassed SpecStatePassed [ok_response ''garbage''])
                body = None \<and>
              ''Failed to decode BeforeSuite state'' = ''Failed to decode BeforeSuite state'' \<and>
              [HttpGet ?url, BodyClose] = [HttpGet ?url, BodyClose])"
    by (simp add: example_defs)
  have g: "http_Get (example_env SpecStatePassed SpecStatePassed []) (trace ?W) ?url = None"
    by (simp add: example_defs)
  have r1: "Run (example_env SpecStatePassed SpecStatePassed []) (Suc 0) ?W =
     (Some False,
      \<lparr>the_node = (example_node 2 3)
         \<lparr>outcome := SpecStateFailed,
          failure := waitForA_failure (example_node 2 3) ''Failed to fetch BeforeSuite state'',
          runTime := 1\<rparr>,
       trace = [HttpGet ?url]\<rparr>)"
    using follower_transport_error_fails_wait [OF f u a, of 0]
    by (simp add: example_defs model_defs)
  have r2: "Run (example_env SpecStatePassed SpecStatePassed
          [Some \<lparr>StatusCode = 503, Body = Some ''passed 1 2 3''\<rparr>]) (Suc 0) ?W =
     (Some False,
      \<lparr>the_node = (example_node 2 3)
         \<lparr>outcome := SpecStateFailed,
          failure := waitForA_failure (example_node 2 3) ''Failed to fetch BeforeSuite state'',
          runTime := 1\<rparr>,
       trace = [HttpGet ?url]\<rparr>)"
    using follower_transport_error_fails_wait [OF f u b, of 0]
    by (simp add: example_defs model_defs)
  have r3: "Run (example_env SpecStatePassed SpecStatePassed
          [Some \<lparr>StatusCode = 200, Body = None\<rparr>]) (Suc 0) ?W =
     (Some False,
      \<lparr>the_node = (example_node 2 3)
         \<lparr>outcome := SpecStateFailed,
          failure := waitForA_failure (example_node 2 3) ''Failed to read BeforeSuite state'',
          runTime := 1\<rparr>,
       trace = [HttpGet ?url]\<rparr>)"
    using follower_transport_error_fails_wait [OF f u c, of 0]
    by (simp add: example_defs model_defs)
  have r4: "Run (example_env SpecStatePassed SpecStatePassed [ok_response ''garbage'']) (Suc 0) ?W =
     (Some False,
      \<lparr>the_node = (example_node 2 3)
         \<lparr>outcome := SpecStateFailed,
          failure := waitForA_failure (example_node 2 3) ''Failed to decode BeforeSuite state'',
          runTime := 2\<rparr>,
       trace = [HttpGet ?url, BodyClose]\<rparr>)"
    using follower_transport_error_fails_wait [OF f u d, of 0]
    by (simp add: example_defs model_defs)
  from f g r1 r2 r3 r4 show ?thesis by simp
qed

theorem follower_reports_remote_failure_witness:
  "ginkgoNode (the_node (example_world 2 3)) \<noteq> 1 \<and>
   example_unmarshal ''failed'' = Some \<lparr>Data = [], State = RemoteStateStateFailed\<rparr> \<and>
   example_unmarshal ''disappeared'' = Some \<lparr>Data = [], State = RemoteStateStateDisappeared\<rparr> \<and>
   Run (example_env SpecStateFailed SpecStatePassed [ok_response ''failed'']) (Suc 0)
       (example_world 2 3) =
     (Some False,
      \<lparr>the_node = (example_node 2 3)
         \<lparr>outcome := SpecStateFailed,
          failure := waitForA_failure (example_node 2 3) ''BeforeSuite on Node 1 failed'',
          runTime := 2\<rparr>,
       trace = [HttpGet ''http://127.0.0.1:7788/BeforeSuiteState'', BodyClose]\<rparr>) \<and>
   Run (example_env SpecStateFailed SpecStatePassed [ok_response ''disappeared'']) (Suc 0)
       (example_world 2 3) =
     (Some False,
      \<lparr>the_node = (example_node 2 3)
         \<lparr>outcome := SpecStateFailed,
          failure := waitForA_failure (example_node 2 3)
                       ''Node 1 dissappeared before completing BeforeSuite'',
          runTime := 2\<rparr>,
       trace = [HttpGet ''http://127.0.0.1:7788/BeforeSuiteState'', BodyClose]\<rparr>)"
proof -
  let ?url = "''http://127.0.0.1:7788/BeforeSuiteState''"
  let ?W = "example_world 2 3"
  let ?E1 = "example_env SpecStateFailed SpecStatePassed [ok_response ''failed'']"
  let ?E2 = "example_env SpecStateFailed SpecStatePassed [ok_response ''disappeared'']"
  have f: "ginkgoNode (the_node ?W) \<noteq> 1" and u: "?url = state_url (the_node ?W)"
    by (simp_all add: example_defs state_url_def)
  have g1: "http_Get ?E1 (trace ?W) ?url = Some \<lparr>StatusCode = 200, Body = Some ''failed''\<rparr>"
    and g2: "http_Get ?E2 (trace ?W) ?url = Some \<lparr>StatusCode = 200, Body = Some ''disappeared''\<rparr>"
    by (simp_all add: example_defs)
  have s: "StatusCode \<lparr>StatusCode = 200, Body = Some ''failed''\<rparr> = 200"
    "StatusCode \<lparr>StatusCode = 200, Body = Some ''disappeared''\<rparr> = 200"
    and b: "Body \<lparr>StatusCode = 200, Body = Some ''failed''\<rparr> = Some ''failed''"
    "Body \<lparr>StatusCode = 200, Body = Some ''disappeared''\<rparr> = Some ''disappeared''"
    by simp_all
  have j1: "json_Unmarshal ?E1 ''failed'' = Some \<lparr>Data = [], State = RemoteStateStateFailed\<rparr>"
    and j2: "json_Unmarshal ?E2 ''disappeared'' =
               Some \<lparr>Data = [], State = RemoteStateStateDisappeared\<rparr>"
    and j: "example_unmarshal ''failed'' = Some \<lparr>Data = [], State = RemoteStateStateFailed\<rparr>"
    "example_unmarshal ''disappeared'' = Some \<lparr>Data = [], State = RemoteStateStateDisappeared\<rparr>"
    by (simp_all add: example_defs RemoteStateState_defs)
  have m1: "(State \<lparr>Data = [], State = RemoteStateStateFailed\<rparr> = RemoteStateStateFailed \<and>
             ''BeforeSuite on Node 1 failed'' = ''BeforeSuite on Node 1 failed'') \<or>
            (State \<lparr>Data = [], State = RemoteStateStateFailed\<rparr> = RemoteStateStateDisappeared \<and>
             ''BeforeSuite on Node 1 failed'' =
               ''Node 1 dissappeared before completing BeforeSuite'')"
    and m2: "(State \<lparr>Data = [], State = RemoteStateStateDisappeared\<rparr> = RemoteStateStateFailed \<and>
             ''Node 1 dissappeared before completing BeforeSuite'' = ''BeforeSuite on Node 1 failed'') \<or>
            (State \<lparr>Data = [], State = RemoteStateStateDisappeared\<rparr> = RemoteStateStateDisappeared \<and>
             ''Node 1 dissappeared before completing BeforeSuite'' =
               ''Node 1 dissappeared before completing BeforeSuite'')"
    by simp_all
  have r1: "Run ?E1 (Suc 0) ?W =
     (Some False,
      \<lparr>the_node = (example_node 2 3)
         \<lparr>outcome := SpecStateFailed,
          failure := waitForA_failure (example_node 2 3) ''BeforeSuite on Node 1 failed'',
          runTime := 2\<rparr>,
       trace = [HttpGet ?url, BodyClose]\<rparr>)"
    using follower_reports_remote_failure [OF f u g1 s(1) b(1) j1 m1, of 0]
    by (simp add: example_defs model_defs RemoteStateState_defs)
  have r2: "Run ?E2 (Suc 0) ?W =
     (Some False,
      \<lparr>the_node = (example_node 2 3)
         \<lparr>outcome := SpecStateFailed,
          failure := waitForA_failure (example_node 2 3)
                       ''Node 1 dissappeared before completing BeforeSuite'',
          runTime := 2\<rparr>,
       trace = [HttpGet ?url, BodyClose]\<rparr>)"
    using follower_reports_remote_failure [OF f u g2 s(2) b(2) j2 m2, of 0]
    by (simp add: example_defs model_defs RemoteStateState_defs)
  from f j r1 r2 show ?thesis by simp
qed

theorem nonterminal_record_keeps_polling_witness:
  "example_unmarshal ''pending'' = Some \<lparr>Data = [], State = RemoteStateStatePending\<rparr> \<and>
   example_unmarshal ''invalid'' = Some \<lparr>Data = [], State = RemoteStateStateInvalid\<rparr> \<and>
   RemoteStateStatePending \<noteq> RemoteStateStatePassed \<and>
   RemoteStateStatePending \<noteq> RemoteStateStateFailed \<and>
   RemoteStateStatePending \<noteq> RemoteStateStateDisappeared \<and>
   RemoteStateStateInvalid \<noteq> RemoteStateStatePassed \<and>
   RemoteStateStateInvalid \<noteq> RemoteStateStateFailed \<and>
   RemoteStateStateInvalid \<noteq> RemoteStateStateDisappeared \<and>
   fst (waitForA (example_env SpecStatePassed SpecStatePassed [ok_response ''pending''])
          (Suc 0) (example_world 2 3)) = None \<and>
   fst (waitForA (example_env SpecStatePassed SpecStatePassed [ok_response ''invalid''])
          (Suc 0) (example_world 2 3)) = None \<and>
   waitForA (example_env SpecStatePassed SpecStatePassed
               [ok_response ''pending'', ok_response ''passed 1 2 3'']) (Suc (Suc 0))
            (example_world 2 3) =
     waitForA (example_env SpecStatePassed SpecStatePassed
               [ok_response ''pending'', ok_response ''passed 1 2 3'']) (Suc 0)
       \<lparr>the_node = example_node 2 3,
        trace = [HttpGet ''http://127.0.0.1:7788/BeforeSuiteState'', BodyClose, Sleep 50]\<rparr>"
proof -
  let ?url = "''http://127.0.0.1:7788/BeforeSuiteState''"
  let ?W = "example_world 2 3"
  let ?E1 = "example_env SpecStatePassed SpecStatePassed [ok_response ''pending'']"
  let ?E2 = "example_env SpecStatePassed SpecStatePassed [ok_response ''invalid'']"
  let ?E3 = "example_env SpecStatePassed SpecStatePassed
               [ok_response ''pending'', ok_response ''passed 1 2 3'']"
  have g1: "http_Get ?E1 (trace ?W) (state_url (the_node ?W)) =
              Some \<lparr>StatusCode = 200, Body = Some ''pending''\<rparr>"
    and g2: "http_Get ?E2 (trace ?W) (state_url (the_node ?W)) =
              Some \<lparr>StatusCode = 200, Body = Some ''invalid''\<rparr>"
    and g3: "http_Get ?E3 (trace ?W) (state_url (the_node ?W)) =
              Some \<lparr>StatusCode = 200, Body = Some ''pending''\<rparr>"
    by (simp_all add: example_defs)
  have s: "StatusCode \<lparr>StatusCode = 200, Body = Some ''pending''\<rparr> = 200"
    "StatusCode \<lparr>StatusCode = 200, Body = Some ''invalid''\<rparr> = 200"
    and b: "Body \<lparr>StatusCode = 200, Body = Some ''pending''\<rparr> = Some ''pending''"
    "Body \<lparr>StatusCode = 200, Body = Some ''invalid''\<rparr> = Some ''invalid''"
    by simp_all
  have j1: "json_Unmarshal ?E1 ''pending'' = Some \<lparr>Data = [], State = RemoteStateStatePending\<rparr>"
    and j2: "json_Unmarshal ?E2 ''invalid'' = Some \<lparr>Data = [], State = RemoteStateStateInvalid\<rparr>"
    and j3: "json_Unmarshal ?E3 ''pending'' = Some \<lparr>Data = [], State = RemoteStateStatePending\<rparr>"
    and j: "example_unmarshal ''pending'' = Some \<lparr>Data = [], State = RemoteStateStatePending\<rparr>"
    "example_unmarshal ''invalid'' = Some \<lparr>Data = [], State = RemoteStateStateInvalid\<rparr>"
    by (simp_all add: example_defs RemoteStateState_defs)
  have p: "State \<lparr>Data = [], State = RemoteStateStatePending\<rparr> \<noteq> RemoteStateStatePassed"
    "State \<lparr>Data = [], State = RemoteStateStatePending\<rparr> \<noteq> RemoteStateStateFailed"
    "State \<lparr>Data = [], State = RemoteStateStatePending\<rparr> \<noteq> RemoteStateStateDisappeared"
    and i: "State \<lparr>Data = [], State = RemoteStateStateInvalid\<rparr> \<noteq> RemoteStateStatePassed"
    "State \<lparr>Data = [], State = RemoteStateStateInvalid\<rparr> \<noteq> RemoteStateStateFailed"
    "State \<lparr>Data = [], State = RemoteStateStateInvalid\<rparr> \<noteq> RemoteStateStateDisappeared"
    by (simp_all add: RemoteStateState_defs)
  from nonterminal_record_keeps_polling [OF g1 s(1) b(1) j1 p, of 0]
    nonterminal_record_keeps_polling [OF g2 s(2) b(2) j2 i, of 0]
    nonterminal_record_keeps_polling [OF g3 s(1) b(1) j3 p, of "Suc 0"]
    j p i
  show ?thesis
    by (simp add: emit_def state_url_def example_world_def example_node_def)
qed

end
